theory Spec2Isabelle
  imports Main
begin

section \<open>JavaScript values\<close>

text \<open>
  The payload of a Stripe event is the result of \<^verbatim>\<open>JSON.parse\<close>, and \<^verbatim>\<open>index.js\<close> probes it
  by field presence (\<^verbatim>\<open>a.b\<close>, \<^verbatim>\<open>a?.b\<close>, \<^verbatim>\<open>a || b\<close>). It is modelled as a JavaScript value.
  \<open>JUndefined\<close> is the value of an absent property. Numbers are the integer-valued ones
  (amounts in minor units, epoch seconds); an object is an association list, looked up
  with \<open>map_of\<close>.
\<close>

datatype jsval =
    JUndefined
  | JNull
  | JBool bool
  | JNum int
  | JStr string
  | JArr "jsval list"
  | JObj "(string \<times> jsval) list"

text \<open>A thrown value: an \<^verbatim>\<open>Error\<close> object, of which the program reads \<^verbatim>\<open>.message\<close> only.
  \<open>Failure\<close> is an error thrown by one of the client libraries (stripe, googleapis,
  airtable).\<close>

datatype js_error =
    TypeError string
  | RangeError string
  | Failure string

fun error_message :: "js_error \<Rightarrow> string" where
  "error_message (TypeError m) = m"
| "error_message (RangeError m) = m"
| "error_message (Failure m) = m"

text \<open>ToBoolean: the operand test of \<^verbatim>\<open>||\<close>.\<close>

fun truthy :: "jsval \<Rightarrow> bool" where
  "truthy JUndefined = False"
| "truthy JNull = False"
| "truthy (JBool b) = b"
| "truthy (JNum n) = (n \<noteq> 0)"
| "truthy (JStr s) = (s \<noteq> [])"
| "truthy (JArr xs) = True"
| "truthy (JObj kvs) = True"

text \<open>\<^verbatim>\<open>a || b\<close>\<close>

definition js_or :: "jsval \<Rightarrow> jsval \<Rightarrow> jsval" where
  "js_or a b = (if truthy a then a else b)"

text \<open>V8's TypeError for a property read from \<^verbatim>\<open>undefined\<close> or \<^verbatim>\<open>null\<close>.\<close>

definition cannot_read :: "string \<Rightarrow> string \<Rightarrow> js_error" where
  "cannot_read what k =
     TypeError (''Cannot read properties of '' @ what @ '' (reading '' @ [CHR 0x27] @ k
                @ [CHR 0x27] @ '')'')"

text \<open>
  \<^verbatim>\<open>v.k\<close>, for the names that the program reads from the event and its payload
  (\<^verbatim>\<open>object\<close>, \<^verbatim>\<open>id\<close>, \<^verbatim>\<open>amount\<close>, \<^verbatim>\<open>currency\<close>, \<^verbatim>\<open>receipt_email\<close>, ...): a TypeError on
  \<^verbatim>\<open>undefined\<close> and \<^verbatim>\<open>null\<close>, the own property of an object, and \<^verbatim>\<open>undefined\<close> when the object
  has no such key. None of these names is a property of a primitive, of an array or of
  \<^verbatim>\<open>Object.prototype\<close>, so these give \<^verbatim>\<open>undefined\<close>.
\<close>

fun get_prop :: "jsval \<Rightarrow> string \<Rightarrow> js_error + jsval" where
  "get_prop JUndefined k = Inl (cannot_read ''undefined'' k)"
| "get_prop JNull k = Inl (cannot_read ''null'' k)"
| "get_prop (JObj kvs) k = Inr (case map_of kvs k of None \<Rightarrow> JUndefined | Some v \<Rightarrow> v)"
| "get_prop v k = Inr JUndefined"

text \<open>\<^verbatim>\<open>v?.k\<close>: \<^verbatim>\<open>undefined\<close> when \<open>v\<close> is \<^verbatim>\<open>undefined\<close> or \<^verbatim>\<open>null\<close>, else \<^verbatim>\<open>v.k\<close>.\<close>

definition opt_prop :: "jsval \<Rightarrow> string \<Rightarrow> js_error + jsval" where
  "opt_prop v k = (if v = JUndefined \<or> v = JNull then Inr JUndefined else get_prop v k)"

text \<open>Sequencing of a computation that may throw.\<close>

definition bindE :: "'e + 'a \<Rightarrow> ('a \<Rightarrow> 'e + 'b) \<Rightarrow> 'e + 'b" where
  "bindE m f = (case m of Inl e \<Rightarrow> Inl e | Inr x \<Rightarrow> f x)"

text \<open>\<^verbatim>\<open>Array.prototype.join\<close>\<close>

fun join :: "string \<Rightarrow> string list \<Rightarrow> string" where
  "join sep [] = []"
| "join sep [x] = x"
| "join sep (x # y # ys) = x @ sep @ join sep (y # ys)"

text \<open>
  ToPrimitive succeeds on every primitive. On an object parsed from JSON it calls the
  inherited \<^verbatim>\<open>toString\<close>, unless the object has an own property of that name, which
  is not callable: then a TypeError is thrown. On an array it joins the elements, so
  it throws when an element does.
\<close>

fun printable :: "jsval \<Rightarrow> bool" where
  "printable (JObj kvs) = (map_of kvs ''toString'' = None)"
| "printable (JArr xs) = list_all (\<lambda>b. b) (map printable xs)"
| "printable v = True"

definition cannot_convert :: js_error where
  "cannot_convert = TypeError ''Cannot convert object to primitive value''"

text \<open>
  The text of a printable value. The text of a number is the platform's (\<open>num\<close>); an
  array is its elements joined by commas, \<^verbatim>\<open>null\<close> and \<^verbatim>\<open>undefined\<close> elements empty.
\<close>

fun text_of :: "(int \<Rightarrow> string) \<Rightarrow> jsval \<Rightarrow> string" where
  "text_of num JUndefined = ''undefined''"
| "text_of num JNull = ''null''"
| "text_of num (JBool b) = (if b then ''true'' else ''false'')"
| "text_of num (JNum n) = num n"
| "text_of num (JStr s) = s"
| "text_of num (JArr xs) =
     join '','' (map (\<lambda>x. if x = JUndefined \<or> x = JNull then [] else text_of num x) xs)"
| "text_of num (JObj kvs) = ''[object Object]''"

text \<open>ToString, as a template literal applies it.\<close>

definition to_string :: "(int \<Rightarrow> string) \<Rightarrow> jsval \<Rightarrow> js_error + string" where
  "to_string num v = (if printable v then Inr (text_of num v) else Inl cannot_convert)"

section \<open>Dates\<close>

text \<open>
  \<^verbatim>\<open>new Date(v)\<close> for a number \<open>v\<close> of milliseconds: the time value, or an invalid date
  (\<open>None\<close>) beyond 8.64e15 ms (TimeClip). For an integer \<open>v\<close> the product
  \<^verbatim>\<open>created * 1000\<close> is exact wherever the comparison with 8.64e15 matters.
\<close>

definition new_Date :: "int \<Rightarrow> int option" where
  "new_Date v = (if \<bar>v\<bar> > 8640000000000000 then None else Some v)"

primrec digits :: "nat \<Rightarrow> nat \<Rightarrow> string" where
  "digits 0 n = []"
| "digits (Suc w) n = digits w (n div 10) @ [''0123456789'' ! (n mod 10)]"

text \<open>Year, month (1..12) and day of month of a day number counted from 1970-01-01,
  in the proleptic Gregorian calendar.\<close>

definition civil_from_days :: "int \<Rightarrow> int \<times> int \<times> int" where
  "civil_from_days z0 =
     (let z = z0 + 719468;
          era = z div 146097;
          doe = z mod 146097;
          yoe = (doe - doe div 1460 + doe div 36524 - doe div 146096) div 365;
          doy = doe - (365 * yoe + yoe div 4 - yoe div 100);
          mp = (5 * doy + 2) div 153;
          d = doy - (153 * mp + 2) div 5 + 1;
          m = (if mp < 10 then mp + 3 else mp - 9);
          y = yoe + era * 400 + (if m \<le> 2 then 1 else 0)
      in (y, m, d))"

text \<open>The year of an ISO instant: four digits from 0 to 9999, a sign and six digits
  otherwise.\<close>

definition iso_year :: "int \<Rightarrow> string" where
  "iso_year y =
     (if 0 \<le> y \<and> y \<le> 9999 then digits 4 (nat y)
      else (if y < 0 then ''-'' else ''+'') @ digits 6 (nat \<bar>y\<bar>))"

definition iso_date :: "int \<Rightarrow> string" where
  "iso_date day =
     (case civil_from_days day of
        (y, m, d) \<Rightarrow> iso_year y @ ''-'' @ digits 2 (nat m) @ ''-'' @ digits 2 (nat d))"

text \<open>The text of a valid time value \<open>t\<close> (milliseconds since the epoch).\<close>

definition iso_of_ms :: "int \<Rightarrow> string" where
  "iso_of_ms t =
     (let w = t mod 86400000
      in iso_date (t div 86400000) @ ''T'' @ digits 2 (nat (w div 3600000)) @ '':''
         @ digits 2 (nat (w div 60000 mod 60)) @ '':'' @ digits 2 (nat (w div 1000 mod 60))
         @ ''.'' @ digits 3 (nat (w mod 1000)) @ ''Z'')"

text \<open>\<^verbatim>\<open>Date.prototype.toISOString\<close>: a RangeError on an invalid date.\<close>

definition toISOString :: "int option \<Rightarrow> js_error + string" where
  "toISOString d =
     (case d of None \<Rightarrow> Inl (RangeError ''Invalid time value'') | Some t \<Rightarrow> Inr (iso_of_ms t))"

text \<open>
  The spec's words for \<open>failed_at\<close>: the creation time, in seconds since the epoch, as an
  ISO instant. Written on seconds: the day is the seconds divided by 86400, the time of
  day the remainder, and the milliseconds are zero.
\<close>

definition iso_instant_of_epoch_seconds :: "int \<Rightarrow> string" where
  "iso_instant_of_epoch_seconds s =
     (let r = s mod 86400
      in iso_date (s div 86400) @ ''T'' @ digits 2 (nat (r div 3600)) @ '':''
         @ digits 2 (nat (r div 60 mod 60)) @ '':'' @ digits 2 (nat (r mod 60)) @ ''.000Z'')"

section \<open>Data of the monitor\<close>

text \<open>
  The event envelope that \<^verbatim>\<open>stripe.webhooks.constructEvent\<close> returns: its type tag, its
  creation time in seconds since the epoch, and \<^verbatim>\<open>event.data\<close>, whose \<^verbatim>\<open>object\<close> is the
  payload.
\<close>

record event =
  etype :: string
  created :: int
  data :: jsval

text \<open>\<^verbatim>\<open>paymentData\<close>: the canonical record. \<^verbatim>\<open>{}\<close> has every field \<^verbatim>\<open>undefined\<close>.\<close>

record payment_data =
  payment_id :: jsval
  customer_email :: jsval
  amount :: jsval
  currency :: jsval
  failure_code :: jsval
  failure_message :: jsval
  failed_at :: jsval

definition empty_payment_data :: payment_data where
  "empty_payment_data =
     \<lparr>payment_id = JUndefined, customer_email = JUndefined, amount = JUndefined,
      currency = JUndefined, failure_code = JUndefined, failure_message = JUndefined,
      failed_at = JUndefined\<rparr>"

text \<open>
  A field of the row sent to Airtable: a value, or \<open>Hundredth v\<close> for \<^verbatim>\<open>v / 100\<close>, a
  floating-point number that is kept symbolic.
\<close>

datatype cell = Val jsval | Hundredth jsval

type_synonym row = "(string \<times> cell) list"

record log_entry =
  timestamp :: string
  message :: string

text \<open>
  What happens during a delivery, in the order in which it happens: a line on the
  console, a call of \<^verbatim>\<open>gmail.users.messages.send\<close> with the raw message, a call of
  \<^verbatim>\<open>table.create\<close> with the row; and, kept for the claims about what is invoked and in
  which order, the entering and the leaving (by a return or a throw) of one of the
  program's functions.
\<close>

datatype effect =
    Console string
  | GmailSend string
  | AirtableCreate row
  | Enter string
  | Leave string

text \<open>The state: the \<^verbatim>\<open>logs\<close> array, what has happened so far, and the number of times
  the clock has been read.\<close>

record world =
  logs :: "log_entry list"
  trace :: "effect list"
  ticks :: nat

text \<open>
  What \<^verbatim>\<open>req.body\<close> holds when the handler of a route runs: the bytes of the request as
  they arrived (the \<^verbatim>\<open>Buffer\<close> that \<^verbatim>\<open>express.raw\<close> leaves), or a value (what
  \<^verbatim>\<open>express.json\<close> leaves after parsing the bytes; \<^verbatim>\<open>undefined\<close> before any parser has read
  the body).
\<close>

datatype payload = Raw string | Parsed jsval

text \<open>
  What the program is run against. The outcomes of the three client libraries are
  functions of their arguments: \<open>constructEvent\<close> is \<^verbatim>\<open>stripe.webhooks.constructEvent\<close> with
  the endpoint's secret, applied to \<^verbatim>\<open>req.body\<close> and to the \<^verbatim>\<open>stripe-signature\<close> header.
  \<open>json_parse\<close> is the parse that \<^verbatim>\<open>express.json()\<close> applies to the bytes of a body: a value, or
  the error it throws on bytes that are not the text of a JSON object or array. \<open>clock\<close>
  gives the text of \<^verbatim>\<open>new Date().toISOString()\<close> at each reading, and \<open>Date_now\<close> the number
  \<^verbatim>\<open>Date.now()\<close>. Of the platform, \<open>numberToString\<close> is the text of a number,
  \<open>hundredthToFixed2 v\<close> is \<^verbatim>\<open>(v / 100).toFixed(2)\<close> for a printable \<open>v\<close>, \<open>toUpperCase\<close> is
  \<^verbatim>\<open>String.prototype.toUpperCase\<close> and \<open>base64url\<close> is the encoding of the message
  (\<^verbatim>\<open>Buffer.from(m).toString('base64')\<close> with the three replacements).
\<close>

record env =
  constructEvent :: "payload \<Rightarrow> string option \<Rightarrow> js_error + event"
  json_parse :: "string \<Rightarrow> js_error + jsval"
  gmail_send :: "string \<Rightarrow> js_error option"
  airtable_create :: "row \<Rightarrow> js_error + string"
  clock :: "nat \<Rightarrow> string"
  Date_now :: "nat \<Rightarrow> int"
  ALERT_EMAIL :: "string option"
  numberToString :: "int \<Rightarrow> string"
  hundredthToFixed2 :: "jsval \<Rightarrow> string"
  toUpperCase :: "string \<Rightarrow> string"
  base64url :: "string \<Rightarrow> string"

section \<open>Log sink\<close>

text \<open>\<^verbatim>\<open>Array.prototype.slice(start)\<close>\<close>

definition slice :: "int \<Rightarrow> 'a list \<Rightarrow> 'a list" where
  "slice start xs =
     (let len = int (length xs);
          k = (if start < 0 then max (len + start) 0 else min start len)
      in drop (nat k) xs)"

definition addLog :: "env \<Rightarrow> string \<Rightarrow> world \<Rightarrow> world" where
  "addLog E msg s =
     (let ts = clock E (ticks s);
          pushed = logs s @ [\<lparr>timestamp = ts, message = msg\<rparr>]
      in s\<lparr>logs := (if length pushed > 50 then slice (- 50) pushed else pushed),
           trace := trace s @ [Console (''['' @ ts @ ''] '' @ msg)],
           ticks := Suc (ticks s)\<rparr>)"


section \<open>Notification channel\<close>

definition nl :: string where
  "nl = [CHR 0x0A]"

text \<open>\<^verbatim>\<open>paymentData.currency.toUpperCase()\<close>: the method of a string; reading it from
  \<^verbatim>\<open>undefined\<close> or \<^verbatim>\<open>null\<close> throws, and any other value has no such method.\<close>

definition currency_toUpperCase :: "env \<Rightarrow> jsval \<Rightarrow> js_error + string" where
  "currency_toUpperCase E v =
     (case v of
        JStr c \<Rightarrow> Inr (toUpperCase E c)
      | JUndefined \<Rightarrow> Inl (cannot_read ''undefined'' ''toUpperCase'')
      | JNull \<Rightarrow> Inl (cannot_read ''null'' ''toUpperCase'')
      | _ \<Rightarrow> Inl (TypeError ''paymentData.currency.toUpperCase is not a function''))"

text \<open>\<^verbatim>\<open>(paymentData.amount / 100).toFixed(2)\<close>: the division applies ToNumber, which throws
  where ToPrimitive does.\<close>

definition amount_toFixed2 :: "env \<Rightarrow> jsval \<Rightarrow> js_error + string" where
  "amount_toFixed2 E v = (if printable v then Inr (hundredthToFixed2 E v) else Inl cannot_convert)"

text \<open>The subject; its first four bytes are U+1F6A8 in UTF-8.\<close>

definition gmail_subject :: "env \<Rightarrow> payment_data \<Rightarrow> js_error + string" where
  "gmail_subject E pd =
     bindE (to_string (numberToString E) (js_or (customer_email pd) (JStr ''Unknown Customer'')))
       (\<lambda>who. Inr ([CHR 0xF0, CHR 0x9F, CHR 0x9A, CHR 0xA8] @ '' Payment Failed Alert - '' @ who))"

text \<open>The body: the substitutions of the template are evaluated from left to right, the
  first that throws ends the evaluation.\<close>

definition gmail_body :: "env \<Rightarrow> payment_data \<Rightarrow> js_error + string" where
  "gmail_body E pd =
     bindE (to_string (numberToString E) (payment_id pd)) (\<lambda>pid.
     bindE (to_string (numberToString E) (js_or (customer_email pd) (JStr ''Not available'')))
       (\<lambda>customer.
     bindE (amount_toFixed2 E (amount pd)) (\<lambda>amt.
     bindE (currency_toUpperCase E (currency pd)) (\<lambda>cur.
     bindE (to_string (numberToString E) (js_or (failure_code pd) (JStr ''Not specified'')))
       (\<lambda>code.
     bindE (to_string (numberToString E) (js_or (failure_message pd) (JStr ''Not specified'')))
       (\<lambda>msg.
     bindE (to_string (numberToString E) (failed_at pd)) (\<lambda>at.
       Inr (join nl
         [[],
          ''Payment Failure Detected!'',
          [],
          ''Details:'',
          ''- Payment ID: '' @ pid,
          ''- Customer: '' @ customer,
          ''- Amount: $'' @ amt @ '' '' @ cur,
          ''- Failure Code: '' @ code,
          ''- Failure Message: '' @ msg,
          ''- Date: '' @ at,
          [],
          ''Please review and take appropriate action.'',
          [],
          ''Best regards,'',
          ''Failed Payments Monitor'',
          ''    '']))))))))"

text \<open>\<^verbatim>\<open>process.env.ALERT_EMAIL || 'admin@example.com'\<close>\<close>

definition alert_recipient :: "env \<Rightarrow> string" where
  "alert_recipient E =
     (case ALERT_EMAIL E of None \<Rightarrow> ''admin@example.com''
      | Some a \<Rightarrow> (if a = [] then ''admin@example.com'' else a))"

definition gmail_message :: "env \<Rightarrow> payment_data \<Rightarrow> js_error + string" where
  "gmail_message E pd =
     bindE (gmail_subject E pd) (\<lambda>subject.
     bindE (gmail_body E pd) (\<lambda>body.
       Inr (join nl
         [''Content-Type: text/plain; charset='' @ [CHR 0x22] @ ''UTF-8'' @ [CHR 0x22],
          ''MIME-Version: 1.0'',
          ''To: '' @ alert_recipient E,
          ''Subject: '' @ subject,
          [],
          body])))"

text \<open>\<^verbatim>\<open>encodedMessage\<close>\<close>

definition encodedMessage :: "env \<Rightarrow> payment_data \<Rightarrow> js_error + string" where
  "encodedMessage E pd = bindE (gmail_message E pd) (\<lambda>message. Inr (base64url E message))"

text \<open>
  The \<^verbatim>\<open>try\<close> block of \<^verbatim>\<open>sendGmailAlert\<close>: the message is built, sent, and the success
  logged. The result is \<open>Inl\<close> of what was thrown, with the state at the throw.
\<close>

definition sendGmailAlert_try :: "env \<Rightarrow> payment_data \<Rightarrow> world \<Rightarrow> (js_error + unit) \<times> world" where
  "sendGmailAlert_try E pd s =
     (case encodedMessage E pd of
        Inl e \<Rightarrow> (Inl e, s)
      | Inr raw \<Rightarrow>
          (let s1 = s\<lparr>trace := trace s @ [GmailSend raw]\<rparr>
           in case gmail_send E raw of
                Some e \<Rightarrow> (Inl e, s1)
              | None \<Rightarrow>
                  (case to_string (numberToString E) (payment_id pd) of
                     Inl e \<Rightarrow> (Inl e, s1)
                   | Inr pid \<Rightarrow> (Inr (), addLog E (''Gmail alert sent for payment '' @ pid) s1))))"

text \<open>Entering and leaving one of the program's functions.\<close>

definition enter :: "string \<Rightarrow> world \<Rightarrow> world" where
  "enter f s = s\<lparr>trace := trace s @ [Enter f]\<rparr>"

definition leave :: "string \<Rightarrow> world \<Rightarrow> world" where
  "leave f s = s\<lparr>trace := trace s @ [Leave f]\<rparr>"

text \<open>\<^verbatim>\<open>sendGmailAlert\<close>: the \<^verbatim>\<open>catch\<close> logs the error and does not throw it again.\<close>

definition sendGmailAlert :: "env \<Rightarrow> payment_data \<Rightarrow> world \<Rightarrow> (js_error + unit) \<times> world" where
  "sendGmailAlert E pd s =
     (case sendGmailAlert_try E pd (enter ''sendGmailAlert'' s) of
        (Inl error, s1) \<Rightarrow>
          (Inr (),
           leave ''sendGmailAlert''
             (addLog E (''Error sending Gmail alert: '' @ error_message error) s1))
      | (Inr u, s1) \<Rightarrow> (Inr u, leave ''sendGmailAlert'' s1))"

section \<open>Record store channel\<close>

text \<open>
  The \<^verbatim>\<open>fields\<close> of the row, evaluated in the order of the object literal: the division
  of the amount and the upper-casing of the currency may throw; \<open>now\<close> is the reading of
  the clock for \<open>Created At\<close>, the last field.
\<close>

definition airtable_fields :: "env \<Rightarrow> payment_data \<Rightarrow> string \<Rightarrow> js_error + row" where
  "airtable_fields E pd now =
     bindE (if printable (amount pd) then Inr (Hundredth (amount pd)) else Inl cannot_convert)
       (\<lambda>amt.
     bindE (currency_toUpperCase E (currency pd)) (\<lambda>cur.
       Inr [(''Payment ID'', Val (payment_id pd)),
            (''Customer Email'', Val (js_or (customer_email pd) (JStr ''Unknown''))),
            (''Amount'', amt),
            (''Currency'', Val (JStr cur)),
            (''Failure Code'', Val (js_or (failure_code pd) (JStr ''Unknown''))),
            (''Failure Message'', Val (js_or (failure_message pd) (JStr ''Unknown''))),
            (''Failed At'', Val (failed_at pd)),
            (''Status'', Val (JStr ''New'')),
            (''Created At'', Val (JStr now))]))"

text \<open>
  The \<^verbatim>\<open>try\<close> block of \<^verbatim>\<open>addToAirtable\<close>. The row is built first (the clock is read only
  when nothing has thrown), then \<^verbatim>\<open>table.create\<close> is called; on success the identifier of
  the created record is logged and returned.
\<close>

definition addToAirtable_try :: "env \<Rightarrow> payment_data \<Rightarrow> world \<Rightarrow> (js_error + string) \<times> world" where
  "addToAirtable_try E pd s =
     (case airtable_fields E pd (clock E (ticks s)) of
        Inl e \<Rightarrow> (Inl e, s)
      | Inr r \<Rightarrow>
          (let s1 = s\<lparr>trace := trace s @ [AirtableCreate r], ticks := Suc (ticks s)\<rparr>
           in case airtable_create E r of
                Inl e \<Rightarrow> (Inl e, s1)
              | Inr rid \<Rightarrow>
                  (Inr rid, addLog E (''Added failed payment record to Airtable: '' @ rid) s1)))"

text \<open>\<^verbatim>\<open>addToAirtable\<close>: the \<^verbatim>\<open>catch\<close> logs the error and throws it again.\<close>

definition addToAirtable :: "env \<Rightarrow> payment_data \<Rightarrow> world \<Rightarrow> (js_error + string) \<times> world" where
  "addToAirtable E pd s =
     (case addToAirtable_try E pd (enter ''addToAirtable'' s) of
        (Inl error, s1) \<Rightarrow>
          (Inl error,
           leave ''addToAirtable''
             (addLog E (''Error adding to Airtable: '' @ error_message error) s1))
      | (Inr r, s1) \<Rightarrow> (Inr r, leave ''addToAirtable'' s1))"

section \<open>Event normalizer\<close>

text \<open>
  Lines 127 to 162 of \<^verbatim>\<open>processFailedPayment\<close>: the record built from the envelope, field
  by field in the order of the source. A TypeError is thrown when \<^verbatim>\<open>event.data\<close> or the
  payload is \<^verbatim>\<open>undefined\<close> or \<^verbatim>\<open>null\<close>, a RangeError when the creation time is not a valid
  date. For any other type the record stays \<^verbatim>\<open>{}\<close>.
\<close>

definition failed_at_of :: "event \<Rightarrow> js_error + jsval" where
  "failed_at_of ev = bindE (toISOString (new_Date (created ev * 1000))) (\<lambda>iso. Inr (JStr iso))"

definition normalize_event :: "event \<Rightarrow> js_error + payment_data" where
  "normalize_event ev =
     (if etype ev = ''payment_intent.payment_failed'' then
        bindE (get_prop (data ev) ''object'') (\<lambda>paymentIntent.
        bindE (get_prop paymentIntent ''id'') (\<lambda>pid.
        bindE (get_prop paymentIntent ''receipt_email'') (\<lambda>receipt_email.
        bindE (get_prop paymentIntent ''amount'') (\<lambda>amt.
        bindE (get_prop paymentIntent ''currency'') (\<lambda>cur.
        bindE (get_prop paymentIntent ''last_payment_error'') (\<lambda>last_payment_error.
        bindE (opt_prop last_payment_error ''code'') (\<lambda>code.
        bindE (opt_prop last_payment_error ''message'') (\<lambda>msg.
        bindE (failed_at_of ev) (\<lambda>at.
          Inr \<lparr>payment_id = pid,
               customer_email = js_or receipt_email (JStr ''Unknown''),
               amount = amt,
               currency = cur,
               failure_code = code,
               failure_message = msg,
               failed_at = at\<rparr>)))))))))
      else if etype ev = ''invoice.payment_failed'' then
        bindE (get_prop (data ev) ''object'') (\<lambda>invoice.
        bindE (get_prop invoice ''id'') (\<lambda>pid.
        bindE (get_prop invoice ''customer_email'') (\<lambda>email.
        bindE (get_prop invoice ''amount_due'') (\<lambda>amt.
        bindE (get_prop invoice ''currency'') (\<lambda>cur.
        bindE (failed_at_of ev) (\<lambda>at.
          Inr \<lparr>payment_id = pid,
               customer_email = js_or email (JStr ''Unknown''),
               amount = amt,
               currency = cur,
               failure_code = JStr ''invoice_payment_failed'',
               failure_message = JStr ''Invoice payment failed'',
               failed_at = at\<rparr>))))))
      else if etype ev = ''charge.failed'' then
        bindE (get_prop (data ev) ''object'') (\<lambda>charge.
        bindE (get_prop charge ''id'') (\<lambda>pid.
        bindE (get_prop charge ''receipt_email'') (\<lambda>receipt_email.
        bindE (if truthy receipt_email then Inr JUndefined
               else bindE (get_prop charge ''billing_details'') (\<lambda>billing_details.
                      opt_prop billing_details ''email'')) (\<lambda>billing_email.
        bindE (get_prop charge ''amount'') (\<lambda>amt.
        bindE (get_prop charge ''currency'') (\<lambda>cur.
        bindE (get_prop charge ''failure_code'') (\<lambda>code.
        bindE (get_prop charge ''failure_message'') (\<lambda>msg.
        bindE (failed_at_of ev) (\<lambda>at.
          Inr \<lparr>payment_id = pid,
               customer_email =
                 js_or (js_or receipt_email billing_email) (JStr ''Unknown''),
               amount = amt,
               currency = cur,
               failure_code = code,
               failure_message = msg,
               failed_at = at\<rparr>)))))))))
      else Inr empty_payment_data)"

section \<open>Webhook dispatcher\<close>

text \<open>The \<^verbatim>\<open>try\<close> block of \<^verbatim>\<open>processFailedPayment\<close>: normalize, log, send the alert, await
  it, add the row, await it, log. Each of the two log messages is a template on the
  payment id and is evaluated before \<^verbatim>\<open>addLog\<close> is called.\<close>

definition processFailedPayment_try :: "env \<Rightarrow> event \<Rightarrow> world \<Rightarrow> (js_error + unit) \<times> world" where
  "processFailedPayment_try E ev s =
     (case normalize_event ev of
        Inl e \<Rightarrow> (Inl e, s)
      | Inr paymentData \<Rightarrow>
          (case to_string (numberToString E) (payment_id paymentData) of
             Inl e \<Rightarrow> (Inl e, s)
           | Inr pid \<Rightarrow>
               (let s1 = addLog E (''Processing failed payment: '' @ pid) s
                in case sendGmailAlert E paymentData s1 of
                     (Inl e, s2) \<Rightarrow> (Inl e, s2)
                   | (Inr _, s2) \<Rightarrow>
                       (case addToAirtable E paymentData s2 of
                          (Inl e, s3) \<Rightarrow> (Inl e, s3)
                        | (Inr _, s3) \<Rightarrow>
                            (case to_string (numberToString E) (payment_id paymentData) of
                               Inl e \<Rightarrow> (Inl e, s3)
                             | Inr pid' \<Rightarrow>
                                 (Inr (),
                                  addLog E (''Successfully processed failed payment: '' @ pid')
                                    s3))))))"

text \<open>\<^verbatim>\<open>processFailedPayment\<close>: the \<^verbatim>\<open>catch\<close> logs the error and throws it again.\<close>

definition processFailedPayment :: "env \<Rightarrow> event \<Rightarrow> world \<Rightarrow> (js_error + unit) \<times> world" where
  "processFailedPayment E ev s =
     (case processFailedPayment_try E ev (enter ''processFailedPayment'' s) of
        (Inl error, s1) \<Rightarrow>
          (Inl error,
           leave ''processFailedPayment''
             (addLog E (''Error processing failed payment: '' @ error_message error) s1))
      | (Inr u, s1) \<Rightarrow> (Inr u, leave ''processFailedPayment'' s1))"

text \<open>
  A request as a handler sees it: \<^verbatim>\<open>req.body\<close>, the mark \<^verbatim>\<open>req._body\<close> that a body parser sets
  when it reads the body, and the \<^verbatim>\<open>stripe-signature\<close> header. A response: a status with a
  text, or a JSON object.
\<close>

record request =
  body :: payload
  body_read :: bool
  stripe_signature :: "string option"

datatype response = Send nat string | Json nat "(string \<times> jsval) list"

fun status :: "response \<Rightarrow> nat" where
  "status (Send c t) = c"
| "status (Json c j) = c"

definition recognized :: "string \<Rightarrow> bool" where
  "recognized t \<longleftrightarrow>
     t \<in> set [''payment_intent.payment_failed'', ''invoice.payment_failed'', ''charge.failed'']"

text \<open>The handler of \<^verbatim>\<open>POST /webhook/stripe\<close>.\<close>

definition webhook_stripe :: "env \<Rightarrow> request \<Rightarrow> world \<Rightarrow> response \<times> world" where
  "webhook_stripe E req s =
     (case constructEvent E (body req) (stripe_signature req) of
        Inl err \<Rightarrow>
          (Send 400 (''Webhook Error: '' @ error_message err),
           addLog E (''Webhook signature verification failed: '' @ error_message err) s)
      | Inr ev \<Rightarrow>
          (if recognized (etype ev) then
             (case processFailedPayment E ev s of
                (Inl error, s1) \<Rightarrow>
                  (Send 500 ''Internal Server Error'',
                   addLog E (''Error processing webhook: '' @ error_message error) s1)
              | (Inr _, s1) \<Rightarrow>
                  (Json 200 [(''received'', JBool True)],
                   addLog E (''Webhook processed successfully: '' @ etype ev) s1))
           else
             (Json 200 [(''received'', JBool True)],
              addLog E (''Unhandled event type: '' @ etype ev) s)))"

section \<open>Body parsers\<close>

text \<open>
  A delivery as it arrives at \<^verbatim>\<open>POST /webhook/stripe\<close>: the bytes of its body, which is of
  the media type \<^verbatim>\<open>application/json\<close>, and its \<^verbatim>\<open>stripe-signature\<close> header. Before any
  middleware has run, \<^verbatim>\<open>req.body\<close> is \<^verbatim>\<open>undefined\<close> and the body has not been read.
\<close>

record delivery =
  bytes :: string
  signature :: "string option"

definition incoming :: "delivery \<Rightarrow> request" where
  "incoming d = \<lparr>body = Parsed JUndefined, body_read = False, stripe_signature = signature d\<rparr>"

text \<open>
  The two parsers that the application registers, both for the media type
  \<^verbatim>\<open>application/json\<close> (\<^verbatim>\<open>express.json()\<close> by default, \<^verbatim>\<open>express.raw\<close> by its \<^verbatim>\<open>type\<close> option). A
  parser leaves alone a request whose body has been read already. Otherwise
  \<^verbatim>\<open>express.json()\<close> reads the bytes and parses them: \<^verbatim>\<open>req.body\<close> becomes the value, or the
  error of the parse is passed on; and \<^verbatim>\<open>express.raw\<close> reads the bytes and makes them
  \<^verbatim>\<open>req.body\<close>.
\<close>

definition express_json :: "env \<Rightarrow> delivery \<Rightarrow> request \<Rightarrow> js_error + request" where
  "express_json E d req =
     (if body_read req then Inr req
      else bindE (json_parse E (bytes d))
             (\<lambda>v. Inr (req\<lparr>body := Parsed v, body_read := True\<rparr>)))"

definition express_raw :: "delivery \<Rightarrow> request \<Rightarrow> js_error + request" where
  "express_raw d req =
     (if body_read req then Inr req
      else Inr (req\<lparr>body := Raw (bytes d), body_read := True\<rparr>))"

text \<open>Lines 29 and 30: the middleware in the order in which it is registered,
  \<^verbatim>\<open>express.json()\<close> first.\<close>

definition middleware :: "env \<Rightarrow> delivery \<Rightarrow> js_error + request" where
  "middleware E d = bindE (express_json E d (incoming d)) (express_raw d)"

text \<open>Lines 276 to 279: the error-handling middleware, which receives an error that a
  parser has passed on.\<close>

definition error_middleware :: "env \<Rightarrow> js_error \<Rightarrow> world \<Rightarrow> response \<times> world" where
  "error_middleware E error s =
     (Json 500 [(''error'', JStr ''Internal Server Error'')],
      addLog E (''Unhandled error: '' @ error_message error) s)"

text \<open>A delivery to \<^verbatim>\<open>POST /webhook/stripe\<close>, from its arrival to the response: the
  middleware, then the handler of the route.\<close>

definition post_webhook_stripe :: "env \<Rightarrow> delivery \<Rightarrow> world \<Rightarrow> response \<times> world" where
  "post_webhook_stripe E d s =
     (case middleware E d of
        Inl error \<Rightarrow> error_middleware E error s
      | Inr req \<Rightarrow> webhook_stripe E req s)"

section \<open>Manual trigger\<close>

text \<open>
  \<^verbatim>\<open>testPaymentData\<close>, when the clock is read for the \<open>k\<close>-th time by \<^verbatim>\<open>Date.now()\<close> and then
  by \<^verbatim>\<open>new Date()\<close>.
\<close>

definition testPaymentData :: "env \<Rightarrow> nat \<Rightarrow> payment_data" where
  "testPaymentData E k =
     \<lparr>payment_id = JStr (''test_'' @ numberToString E (Date_now E k)),
      customer_email = JStr ''test@example.com'',
      amount = JNum 2500,
      currency = JStr ''usd'',
      failure_code = JStr ''card_declined'',
      failure_message = JStr ''Your card was declined.'',
      failed_at = JStr (clock E (Suc k))\<rparr>"

text \<open>The \<^verbatim>\<open>try\<close> block of the handler of \<^verbatim>\<open>POST /test\<close>: it logs, builds the record, sends
  the alert, awaits it, adds the row, awaits it, and logs.\<close>

definition post_test_try :: "env \<Rightarrow> world \<Rightarrow> (js_error + payment_data) \<times> world" where
  "post_test_try E s =
     (let s1 = addLog E ''Manual test initiated'' s;
          pd = testPaymentData E (ticks s1);
          s2 = s1\<lparr>ticks := ticks s1 + 2\<rparr>
      in case sendGmailAlert E pd s2 of
           (Inl e, s3) \<Rightarrow> (Inl e, s3)
         | (Inr _, s3) \<Rightarrow>
             (case addToAirtable E pd s3 of
                (Inl e, s4) \<Rightarrow> (Inl e, s4)
              | (Inr _, s4) \<Rightarrow>
                  (Inr pd, addLog E ''Manual test completed successfully'' s4)))"

text \<open>The record as the value of \<^verbatim>\<open>testData\<close> in the response.\<close>

definition record_object :: "payment_data \<Rightarrow> jsval" where
  "record_object pd =
     JObj [(''payment_id'', payment_id pd), (''customer_email'', customer_email pd),
           (''amount'', amount pd), (''currency'', currency pd),
           (''failure_code'', failure_code pd), (''failure_message'', failure_message pd),
           (''failed_at'', failed_at pd)]"

text \<open>The handler of \<^verbatim>\<open>POST /test\<close>.\<close>

definition post_test :: "env \<Rightarrow> world \<Rightarrow> response \<times> world" where
  "post_test E s =
     (case post_test_try E s of
        (Inr pd, s1) \<Rightarrow>
          (Json 200 [(''success'', JBool True),
                     (''message'', JStr ''Test completed successfully''),
                     (''testData'', record_object pd)],
           s1)
      | (Inl error, s1) \<Rightarrow>
          (Json 500 [(''success'', JBool False), (''error'', JStr (error_message error))],
           addLog E (''Manual test failed: '' @ error_message error) s1))"

text \<open>The state when the process starts: \<^verbatim>\<open>let logs = []\<close>, nothing done yet.\<close>

definition initial_world :: world where
  "initial_world = \<lparr>logs = [], trace = [], ticks = 0\<rparr>"

section \<open>Sequences of appends\<close>

text \<open>The spec's words for what the sink holds: the newest \<open>k\<close> of a sequence.\<close>

definition newest :: "nat \<Rightarrow> 'a list \<Rightarrow> 'a list" where
  "newest k xs = drop (length xs - k) xs"

text \<open>The entries that appending the messages \<open>ms\<close> one after the other pushes, the first
  at clock reading \<open>k\<close>.\<close>

fun stamped :: "env \<Rightarrow> nat \<Rightarrow> string list \<Rightarrow> log_entry list" where
  "stamped E k [] = []"
| "stamped E k (m # ms) = \<lparr>timestamp = clock E k, message = m\<rparr> # stamped E (Suc k) ms"

definition appends :: "env \<Rightarrow> string list \<Rightarrow> world \<Rightarrow> world" where
  "appends E ms s = foldl (\<lambda>s m. addLog E m s) s ms"

section \<open>What a run did\<close>

text \<open>The line that \<^verbatim>\<open>addLog\<close> prints for a message at clock reading \<open>k\<close>, and the entry
  that it pushes.\<close>

definition console_line :: "env \<Rightarrow> nat \<Rightarrow> string \<Rightarrow> effect" where
  "console_line E k msg = Console (''['' @ clock E k @ ''] '' @ msg)"

definition entry_at :: "env \<Rightarrow> nat \<Rightarrow> string \<Rightarrow> log_entry" where
  "entry_at E k msg = \<lparr>timestamp = clock E k, message = msg\<rparr>"

text \<open>What happened between a state \<open>s\<close> and a later state \<open>s'\<close>; of it, the calls of
  the two channels' clients; and all of it but the lines on the console.\<close>

definition delivery_effects :: "world \<Rightarrow> world \<Rightarrow> effect list" where
  "delivery_effects s s' = drop (length (trace s)) (trace s')"

fun is_channel :: "effect \<Rightarrow> bool" where
  "is_channel (GmailSend raw) = True"
| "is_channel (AirtableCreate r) = True"
| "is_channel e = False"

definition channel_effects :: "world \<Rightarrow> world \<Rightarrow> effect list" where
  "channel_effects s s' = filter is_channel (delivery_effects s s')"

fun is_console :: "effect \<Rightarrow> bool" where
  "is_console (Console l) = True"
| "is_console e = False"

definition history :: "world \<Rightarrow> world \<Rightarrow> effect list" where
  "history s s' = filter (\<lambda>e. \<not> is_console e) (delivery_effects s s')"

text \<open>
  What \<^verbatim>\<open>sendGmailAlert\<close> does with a record: the call of the e-mail client that it makes
  (none when the message cannot be built), and the one message that it logs.
\<close>

definition mail_effects :: "env \<Rightarrow> payment_data \<Rightarrow> effect list" where
  "mail_effects E pd = (case encodedMessage E pd of Inl e \<Rightarrow> [] | Inr raw \<Rightarrow> [GmailSend raw])"

definition mail_log :: "env \<Rightarrow> payment_data \<Rightarrow> string" where
  "mail_log E pd =
     (case encodedMessage E pd of
        Inl e \<Rightarrow> ''Error sending Gmail alert: '' @ error_message e
      | Inr raw \<Rightarrow>
          (case gmail_send E raw of
             Some e \<Rightarrow> ''Error sending Gmail alert: '' @ error_message e
           | None \<Rightarrow>
               (case to_string (numberToString E) (payment_id pd) of
                  Inl e \<Rightarrow> ''Error sending Gmail alert: '' @ error_message e
                | Inr pid \<Rightarrow> ''Gmail alert sent for payment '' @ pid)))"

text \<open>
  What \<^verbatim>\<open>addToAirtable\<close> does with a record when it is entered at clock reading \<open>k\<close>: the
  call of the table client that it makes (none when the row cannot be built), what it
  returns or throws, the one message that it logs, and the readings of the clock that it
  takes for the row.
\<close>

definition store_effects :: "env \<Rightarrow> payment_data \<Rightarrow> nat \<Rightarrow> effect list" where
  "store_effects E pd k =
     (case airtable_fields E pd (clock E k) of Inl e \<Rightarrow> [] | Inr r \<Rightarrow> [AirtableCreate r])"

definition store_outcome :: "env \<Rightarrow> payment_data \<Rightarrow> nat \<Rightarrow> js_error + string" where
  "store_outcome E pd k = bindE (airtable_fields E pd (clock E k)) (airtable_create E)"

definition store_log :: "env \<Rightarrow> payment_data \<Rightarrow> nat \<Rightarrow> string" where
  "store_log E pd k =
     (case store_outcome E pd k of
        Inl e \<Rightarrow> ''Error adding to Airtable: '' @ error_message e
      | Inr rid \<Rightarrow> ''Added failed payment record to Airtable: '' @ rid)"

definition store_ticks :: "env \<Rightarrow> payment_data \<Rightarrow> nat \<Rightarrow> nat" where
  "store_ticks E pd k = (case airtable_fields E pd (clock E k) of Inl e \<Rightarrow> 0 | Inr r \<Rightarrow> 1)"

text \<open>The message that ends \<^verbatim>\<open>processFailedPayment\<close>, by the outcome of the store.\<close>

definition processed_log :: "env \<Rightarrow> payment_data \<Rightarrow> nat \<Rightarrow> string" where
  "processed_log E pd k =
     (case store_outcome E pd k of
        Inl e \<Rightarrow> ''Error processing failed payment: '' @ error_message e
      | Inr rid \<Rightarrow>
          ''Successfully processed failed payment: '' @ text_of (numberToString E) (payment_id pd))"

text \<open>The state of the processing of a record \<open>pd\<close> when \<^verbatim>\<open>sendGmailAlert\<close> has returned, and
  when \<^verbatim>\<open>addToAirtable\<close> has returned or thrown.\<close>

definition after_mail :: "env \<Rightarrow> payment_data \<Rightarrow> world \<Rightarrow> world" where
  "after_mail E pd s =
     snd (sendGmailAlert E pd
            (addLog E (''Processing failed payment: ''
                       @ text_of (numberToString E) (payment_id pd))
               (enter ''processFailedPayment'' s)))"

definition after_store :: "env \<Rightarrow> payment_data \<Rightarrow> world \<Rightarrow> world" where
  "after_store E pd s = snd (addToAirtable E pd (after_mail E pd s))"

section \<open>Words of the claims about the record and the row\<close>

text \<open>\<^verbatim>\<open>v?.k\<close> as a value: the property \<open>k\<close> of \<open>v\<close>, \<^verbatim>\<open>undefined\<close> when \<open>v\<close> has none or is
  itself \<^verbatim>\<open>undefined\<close> or \<^verbatim>\<open>null\<close>.\<close>

fun read_prop :: "jsval \<Rightarrow> string \<Rightarrow> jsval" where
  "read_prop (JObj kvs) k = (case map_of kvs k of None \<Rightarrow> JUndefined | Some v \<Rightarrow> v)"
| "read_prop v k = JUndefined"

text \<open>An ordered fallback: the first source that is present (truthy), else the
  sentinel.\<close>

fun first_present :: "jsval list \<Rightarrow> jsval \<Rightarrow> jsval" where
  "first_present [] sentinel = sentinel"
| "first_present (v # vs) sentinel = (if truthy v then v else first_present vs sentinel)"

text \<open>The field of the payload that holds the amount, for each recognized type.\<close>

definition amount_field :: "string \<Rightarrow> string" where
  "amount_field t = (if t = ''invoice.payment_failed'' then ''amount_due'' else ''amount'')"

text \<open>The spec's table of where \<open>failure_code\<close> and \<open>failure_message\<close> come from, for a
  payload \<open>obj\<close> of each recognized type: two constants for an invoice, the charge's own
  fields, and the code and message of the payment intent's last-error object.\<close>

definition failure_code_source :: "string \<Rightarrow> jsval \<Rightarrow> jsval" where
  "failure_code_source t obj =
     (if t = ''invoice.payment_failed'' then JStr ''invoice_payment_failed''
      else if t = ''charge.failed'' then read_prop obj ''failure_code''
      else read_prop (read_prop obj ''last_payment_error'') ''code'')"

definition failure_message_source :: "string \<Rightarrow> jsval \<Rightarrow> jsval" where
  "failure_message_source t obj =
     (if t = ''invoice.payment_failed'' then JStr ''Invoice payment failed''
      else if t = ''charge.failed'' then read_prop obj ''failure_message''
      else read_prop (read_prop obj ''last_payment_error'') ''message'')"

text \<open>A populated field of a row: a value that is not \<^verbatim>\<open>undefined\<close>, or the hundredth of a
  number.\<close>

fun populated :: "cell \<Rightarrow> bool" where
  "populated (Val v) = (v \<noteq> JUndefined)"
| "populated (Hundredth v) = (case v of JNum n \<Rightarrow> True | _ \<Rightarrow> False)"

section \<open>Example deliveries\<close>

text \<open>A failed charge, as in the spec's round trip, delivered at second 1700000000.\<close>

definition example_charge :: jsval where
  "example_charge =
     JObj [(''id'', JStr ''ch_1''), (''amount'', JNum 2500), (''currency'', JStr ''usd''),
           (''receipt_email'', JStr ''a@b.com''),
           (''billing_details'', JObj [(''email'', JStr ''c@d.com'')]),
           (''failure_code'', JStr ''card_declined''),
           (''failure_message'', JStr ''Your card was declined.'')]"

definition charge_event :: event where
  "charge_event =
     \<lparr>etype = ''charge.failed'', created = 1700000000,
      data = JObj [(''object'', example_charge)]\<rparr>"

text \<open>A failed payment intent whose payload has no last-error object.\<close>

definition example_intent :: jsval where
  "example_intent =
     JObj [(''id'', JStr ''pi_1''), (''amount'', JNum 2500), (''currency'', JStr ''usd''),
           (''receipt_email'', JNull), (''last_payment_error'', JNull)]"

definition intent_event :: event where
  "intent_event =
     \<lparr>etype = ''payment_intent.payment_failed'', created = 1700000000,
      data = JObj [(''object'', example_intent)]\<rparr>"

text \<open>An authentic event of a type the monitor does not handle.\<close>

definition other_event :: event where
  "other_event =
     \<lparr>etype = ''customer.created'', created = 1700000000,
      data = JObj [(''object'', JObj [(''id'', JStr ''cus_1'')])]\<rparr>"

text \<open>
  The two events as Stripe delivers them: the bytes of the body, the value that the bytes
  parse to, and the \<^verbatim>\<open>stripe-signature\<close> header that Stripe computes over the bytes (the
  digest is abbreviated).
\<close>

definition charge_bytes :: string where
  \<open>charge_bytes =
     ''{"id":"evt_1","type":"charge.failed","created":1700000000,"data":{"object":''
     @ ''{"id":"ch_1","amount":2500,"currency":"usd","receipt_email":"a@b.com",''
     @ ''"billing_details":{"email":"c@d.com"},"failure_code":"card_declined",''
     @ ''"failure_message":"Your card was declined."}}}''\<close>

definition charge_json :: jsval where
  "charge_json =
     JObj [(''id'', JStr ''evt_1''), (''type'', JStr ''charge.failed''),
           (''created'', JNum 1700000000), (''data'', JObj [(''object'', example_charge)])]"

definition other_bytes :: string where
  \<open>other_bytes =
     ''{"id":"evt_2","type":"customer.created","created":1700000000,''
     @ ''"data":{"object":{"id":"cus_1"}}}''\<close>

definition other_json :: jsval where
  "other_json =
     JObj [(''id'', JStr ''evt_2''), (''type'', JStr ''customer.created''),
           (''created'', JNum 1700000000),
           (''data'', JObj [(''object'', JObj [(''id'', JStr ''cus_1'')])])]"

definition charge_delivery :: delivery where
  "charge_delivery = \<lparr>bytes = charge_bytes, signature = Some ''t=1700000000,v1=5f2c9e''\<rparr>"

definition other_delivery :: delivery where
  "other_delivery = \<lparr>bytes = other_bytes, signature = Some ''t=1700000000,v1=a41b07''\<rparr>"

text \<open>The same charge under a header that was not computed with the endpoint's
  secret.\<close>

definition forged_delivery :: delivery where
  "forged_delivery = \<lparr>bytes = charge_bytes, signature = Some ''t=1700000000,v1=000000''\<rparr>"

text \<open>The decimal text of a natural number, and of an integer number of hundredths with
  two decimals.\<close>

fun decimal :: "nat \<Rightarrow> string" where
  "decimal n =
     (if n < 10 then [''0123456789'' ! n]
      else decimal (n div 10) @ [''0123456789'' ! (n mod 10)])"

definition signed_decimal :: "int \<Rightarrow> string" where
  "signed_decimal n = (if n < 0 then ''-'' else []) @ decimal (nat \<bar>n\<bar>)"

definition fixed2 :: "int \<Rightarrow> string" where
  "fixed2 n =
     (if n < 0 then ''-'' else []) @ decimal (nat \<bar>n\<bar> div 100) @ ''.''
     @ digits 2 (nat \<bar>n\<bar> mod 100)"

text \<open>
  An environment for the examples. The verifier stands for Stripe's: it takes a payload
  of raw bytes only, and accepts the bytes of the two deliveries above, each under its
  own header, with the event that the bytes hold; it refuses a payload that has been
  parsed, whatever the header, because the bytes that were signed are gone (the messages
  of its two errors are abbreviated). The parser
  knows the two bodies. The e-mail provider answers \<open>mail\<close> and the table \<open>store\<close>. The
  clock advances by a second at each reading. The platform functions are stand-ins:
  numbers are written in decimal, letters a to z are upper-cased, and the encoding is
  the identity.
\<close>

definition no_match :: js_error where
  "no_match = Failure ''No signatures found matching the expected signature for payload''"

definition not_raw :: js_error where
  "not_raw = Failure ''Webhook payload must be provided as a string or a Buffer''"

definition example_env :: "js_error option \<Rightarrow> js_error + string \<Rightarrow> env" where
  "example_env mail store =
     \<lparr>constructEvent = (\<lambda>p sg.
        case p of
          Parsed v \<Rightarrow> Inl not_raw
        | Raw bs \<Rightarrow>
            (if bs = bytes charge_delivery \<and> sg = signature charge_delivery
               then Inr charge_event
             else if bs = bytes other_delivery \<and> sg = signature other_delivery
               then Inr other_event
             else Inl no_match)),
      json_parse = (\<lambda>bs.
        if bs = charge_bytes then Inr charge_json
        else if bs = other_bytes then Inr other_json
        else Inl (Failure ''Unexpected token'')),
      gmail_send = (\<lambda>raw. mail),
      airtable_create = (\<lambda>r. store),
      clock = (\<lambda>n. iso_of_ms (1700000001000 + 1000 * int n)),
      Date_now = (\<lambda>n. 1700000001000 + 1000 * int n),
      ALERT_EMAIL = None,
      numberToString = signed_decimal,
      hundredthToFixed2 = (\<lambda>v. case v of JNum n \<Rightarrow> fixed2 n | _ \<Rightarrow> ''NaN''),
      toUpperCase = map (\<lambda>c. case map_of (zip ''abcdefghijklmnopqrstuvwxyz''
                                            ''ABCDEFGHIJKLMNOPQRSTUVWXYZ'') c of
                              Some u \<Rightarrow> u | None \<Rightarrow> c),
      base64url = (\<lambda>m. m)\<rparr>"

text \<open>The requests that the middleware makes of the three deliveries: the body is the
  parsed value.\<close>

definition charge_request :: request where
  "charge_request =
     \<lparr>body = Parsed charge_json, body_read = True, stripe_signature = signature charge_delivery\<rparr>"

definition other_request :: request where
  "other_request =
     \<lparr>body = Parsed other_json, body_read = True, stripe_signature = signature other_delivery\<rparr>"

definition forged_request :: request where
  "forged_request =
     \<lparr>body = Parsed charge_json, body_read = True, stripe_signature = signature forged_delivery\<rparr>"

text \<open>The canonical record of the failed charge.\<close>

definition charge_record :: payment_data where
  "charge_record =
     \<lparr>payment_id = JStr ''ch_1'', customer_email = JStr ''a@b.com'', amount = JNum 2500,
      currency = JStr ''usd'', failure_code = JStr ''card_declined'',
      failure_message = JStr ''Your card was declined.'',
      failed_at = JStr ''2023-11-14T22:13:20.000Z''\<rparr>"

text \<open>Two environments: in the first the e-mail provider refuses the send and the table
  accepts the row; in the second both succeed.\<close>

definition mail_down_env :: env where
  "mail_down_env = example_env (Some (Failure ''invalid_grant'')) (Inr ''rec1'')"

definition healthy_env :: env where
  "healthy_env = example_env None (Inr ''rec1'')"

text \<open>The record that the normalizer builds from the payment intent that has no
  last-error object.\<close>

definition intent_record :: payment_data where
  "intent_record =
     \<lparr>payment_id = JStr ''pi_1'', customer_email = JStr ''Unknown'', amount = JNum 2500,
      currency = JStr ''usd'', failure_code = JUndefined, failure_message = JUndefined,
      failed_at = JStr ''2023-11-14T22:13:20.000Z''\<rparr>"

text \<open>A failed charge with no receipt e-mail, whose billing details have one.\<close>

definition billing_charge :: jsval where
  "billing_charge =
     JObj [(''id'', JStr ''ch_2''), (''amount'', JNum 990), (''currency'', JStr ''eur''),
           (''receipt_email'', JNull),
           (''billing_details'', JObj [(''email'', JStr ''c@d.com'')])]"

definition billing_charge_event :: event where
  "billing_charge_event =
     \<lparr>etype = ''charge.failed'', created = 1700000000,
      data = JObj [(''object'', billing_charge)]\<rparr>"

text \<open>The alert for the failed charge, as the example platform writes it, and the row for
  it when the clock reads \<open>now\<close>.\<close>

definition charge_alert :: string where
  "charge_alert =
     join nl
       [''Content-Type: text/plain; charset='' @ [CHR 0x22] @ ''UTF-8'' @ [CHR 0x22],
        ''MIME-Version: 1.0'',
        ''To: admin@example.com'',
        ''Subject: '' @ [CHR 0xF0, CHR 0x9F, CHR 0x9A, CHR 0xA8] @ '' Payment Failed Alert - a@b.com'',
        [],
        [],
        ''Payment Failure Detected!'',
        [],
        ''Details:'',
        ''- Payment ID: ch_1'',
        ''- Customer: a@b.com'',
        ''- Amount: $25.00 USD'',
        ''- Failure Code: card_declined'',
        ''- Failure Message: Your card was declined.'',
        ''- Date: 2023-11-14T22:13:20.000Z'',
        [],
        ''Please review and take appropriate action.'',
        [],
        ''Best regards,'',
        ''Failed Payments Monitor'',
        ''    '']"

definition charge_row :: "string \<Rightarrow> row" where
  "charge_row now =
     [(''Payment ID'', Val (JStr ''ch_1'')),
      (''Customer Email'', Val (JStr ''a@b.com'')),
      (''Amount'', Hundredth (JNum 2500)),
      (''Currency'', Val (JStr ''USD'')),
      (''Failure Code'', Val (JStr ''card_declined'')),
      (''Failure Message'', Val (JStr ''Your card was declined.'')),
      (''Failed At'', Val (JStr ''2023-11-14T22:13:20.000Z'')),
      (''Status'', Val (JStr ''New'')),
      (''Created At'', Val (JStr now))]"

text \<open>The row for the payment intent without a last-error object.\<close>

definition intent_row :: "string \<Rightarrow> row" where
  "intent_row now =
     [(''Payment ID'', Val (JStr ''pi_1'')),
      (''Customer Email'', Val (JStr ''Unknown'')),
      (''Amount'', Hundredth (JNum 2500)),
      (''Currency'', Val (JStr ''USD'')),
      (''Failure Code'', Val (JStr ''Unknown'')),
      (''Failure Message'', Val (JStr ''Unknown'')),
      (''Failed At'', Val (JStr ''2023-11-14T22:13:20.000Z'')),
      (''Status'', Val (JStr ''New'')),
      (''Created At'', Val (JStr now))]"

text \<open>The record of the manual trigger when it is run in the initial state, the alert for
  it, and the row for it.\<close>

definition test_record :: payment_data where
  "test_record =
     \<lparr>payment_id = JStr ''test_1700000002000'', customer_email = JStr ''test@example.com'',
      amount = JNum 2500, currency = JStr ''usd'', failure_code = JStr ''card_declined'',
      failure_message = JStr ''Your card was declined.'',
      failed_at = JStr ''2023-11-14T22:13:23.000Z''\<rparr>"

definition test_alert :: string where
  "test_alert =
     join nl
       [''Content-Type: text/plain; charset='' @ [CHR 0x22] @ ''UTF-8'' @ [CHR 0x22],
        ''MIME-Version: 1.0'',
        ''To: admin@example.com'',
        ''Subject: '' @ [CHR 0xF0, CHR 0x9F, CHR 0x9A, CHR 0xA8]
          @ '' Payment Failed Alert - test@example.com'',
        [],
        [],
        ''Payment Failure Detected!'',
        [],
        ''Details:'',
        ''- Payment ID: test_1700000002000'',
        ''- Customer: test@example.com'',
        ''- Amount: $25.00 USD'',
        ''- Failure Code: card_declined'',
        ''- Failure Message: Your card was declined.'',
        ''- Date: 2023-11-14T22:13:23.000Z'',
        [],
        ''Please review and take appropriate action.'',
        [],
        ''Best regards,'',
        ''Failed Payments Monitor'',
        ''    '']"

definition test_row :: row where
  "test_row =
     [(''Payment ID'', Val (JStr ''test_1700000002000'')),
      (''Customer Email'', Val (JStr ''test@example.com'')),
      (''Amount'', Hundredth (JNum 2500)),
      (''Currency'', Val (JStr ''USD'')),
      (''Failure Code'', Val (JStr ''card_declined'')),
      (''Failure Message'', Val (JStr ''Your card was declined.'')),
      (''Failed At'', Val (JStr ''2023-11-14T22:13:23.000Z'')),
      (''Status'', Val (JStr ''New'')),
      (''Created At'', Val (JStr ''2023-11-14T22:13:25.000Z''))]"

section \<open>The log sink is bounded\<close>

lemma slice_newest: "slice (- 50) xs = newest 50 xs"
  by (simp add: slice_def newest_def Let_def max_def nat_diff_distrib')

lemma logs_addLog:
  "logs (addLog E msg s) = newest 50 (logs s @ [\<lparr>timestamp = clock E (ticks s), message = msg\<rparr>])"
  using slice_newest [of "logs s @ [\<lparr>timestamp = clock E (ticks s), message = msg\<rparr>]"]
  by (simp add: addLog_def Let_def newest_def)

lemma ticks_addLog: "ticks (addLog E msg s) = Suc (ticks s)"
  by (simp add: addLog_def Let_def)

lemma trace_addLog:
  "trace (addLog E msg s) = trace s @ [Console (''['' @ clock E (ticks s) @ ''] '' @ msg)]"
  by (simp add: addLog_def Let_def)

lemma newest_append: "newest k (newest k xs @ ys) = newest k (xs @ ys)"
proof (cases "length xs \<le> k")
  case True
  then show ?thesis by (simp add: newest_def)
next
  case False
  then have "length xs + length ys - (length xs - k + k) + (length xs - k)
               = length xs + length ys - k"
    by simp
  with False show ?thesis by (simp add: newest_def)
qed

lemma length_newest: "length (newest k xs) \<le> k"
  by (simp add: newest_def)

lemma logs_appends:
  "logs (appends E ms s) =
     (if ms = [] then logs s else newest 50 (logs s @ stamped E (ticks s) ms))"
proof (induction ms arbitrary: s)
  case Nil
  show ?case by (simp add: appends_def)
next
  case (Cons m ms)
  have "appends E (m # ms) s = appends E ms (addLog E m s)"
    by (simp add: appends_def)
  then show ?case
    using Cons.IH [of "addLog E m s"]
    by (simp add: logs_addLog ticks_addLog newest_append)
qed

text \<open>
  C7. Whatever messages are appended, one after the other, to a sink that holds at most
  50 entries (the empty sink of a fresh process is one), the sink then holds at most 50
  entries, and they are the newest 50 of all the entries: the ones it held followed by
  the ones appended, the oldest dropped first.
\<close>

theorem log_sink_holds_newest_50:
  assumes "length (logs s) \<le> 50"
  shows "length (logs (appends E ms s)) \<le> 50 \<and>
         logs (appends E ms s) = newest 50 (logs s @ stamped E (ticks s) ms)"
  using assms by (auto simp: logs_appends length_newest newest_def)

lemma length_stamped: "length (stamped E k ms) = length ms"
  by (induction ms arbitrary: k) auto

text \<open>Sixty appends to the empty sink: fifty entries are held, the first ten are gone.\<close>

theorem log_sink_holds_newest_50_witness:
  "length (logs initial_world) \<le> 50 \<and>
   length (logs (appends (example_env None (Inr ''rec1'')) (replicate 60 ''tick'') initial_world)) = 50 \<and>
   logs (appends (example_env None (Inr ''rec1'')) (replicate 60 ''tick'') initial_world)
     = drop 10 (stamped (example_env None (Inr ''rec1'')) 0 (replicate 60 ''tick''))"
proof -
  have h: "length (logs initial_world) \<le> 50"
    by (simp add: initial_world_def)
  show ?thesis
    using h log_sink_holds_newest_50 [OF h, of "example_env None (Inr ''rec1'')" "replicate 60 ''tick''"]
    by (simp add: initial_world_def newest_def length_stamped)
qed

section \<open>Evaluating the examples\<close>

lemma digits_numeral:
  "digits (numeral k) n = digits (pred_numeral k) (n div 10) @ [''0123456789'' ! (n mod 10)]"
  by (simp only: numeral_eq_Suc digits.simps)

lemma iso_of_ms_example: "iso_of_ms 1700000000000 = ''2023-11-14T22:13:20.000Z''"
  by (simp add: iso_of_ms_def iso_date_def civil_from_days_def iso_year_def digits_numeral
      cong: let_weak_cong)

lemma failed_at_example:
  "created ev = 1700000000 \<Longrightarrow> failed_at_of ev = Inr (JStr ''2023-11-14T22:13:20.000Z'')"
  by (simp add: failed_at_of_def toISOString_def new_Date_def bindE_def iso_of_ms_example)

lemma normalize_charge_event: "normalize_event charge_event = Inr charge_record"
  by (simp add: normalize_event_def charge_event_def example_charge_def charge_record_def
      bindE_def js_or_def opt_prop_def failed_at_example)

lemma clock_example_env:
  "clock (example_env mail store) n = iso_of_ms (1700000001000 + 1000 * int n)"
  by (simp add: example_env_def)

lemma iso_of_ms_clock:
  "iso_of_ms 1700000001000 = ''2023-11-14T22:13:21.000Z''"
  "iso_of_ms 1700000002000 = ''2023-11-14T22:13:22.000Z''"
  "iso_of_ms 1700000003000 = ''2023-11-14T22:13:23.000Z''"
  by (simp_all add: iso_of_ms_def iso_date_def civil_from_days_def iso_year_def digits_numeral
      cong: let_weak_cong)

lemma clock_example:
  "clock (example_env mail store) 0 = ''2023-11-14T22:13:21.000Z''"
  "clock (example_env mail store) 1 = ''2023-11-14T22:13:22.000Z''"
  "clock (example_env mail store) 2 = ''2023-11-14T22:13:23.000Z''"
  "clock (example_env mail store) (Suc 0) = ''2023-11-14T22:13:22.000Z''"
  "clock (example_env mail store) (Suc (Suc 0)) = ''2023-11-14T22:13:23.000Z''"
  by (simp_all add: clock_example_env iso_of_ms_clock)

lemma toUpperCase_example: "toUpperCase (example_env mail store) ''usd'' = ''USD''"
  by (simp add: example_env_def)

lemma bytes_differ: "other_bytes \<noteq> charge_bytes"
  by (simp add: other_bytes_def charge_bytes_def)

lemma json_parse_example:
  "json_parse (example_env mail store) charge_bytes = Inr charge_json"
  "json_parse (example_env mail store) other_bytes = Inr other_json"
  by (simp_all add: example_env_def bytes_differ)

lemma constructEvent_raw:
  "constructEvent (example_env mail store) (Raw (bytes charge_delivery))
     (signature charge_delivery) = Inr charge_event"
  "constructEvent (example_env mail store) (Raw (bytes other_delivery))
     (signature other_delivery) = Inr other_event"
  "constructEvent (example_env mail store) (Raw (bytes forged_delivery))
     (signature forged_delivery) = Inl no_match"
  by (simp_all add: example_env_def charge_delivery_def other_delivery_def forged_delivery_def
      bytes_differ)

lemma constructEvent_parsed:
  "constructEvent (example_env mail store) (Parsed v) sg = Inl not_raw"
  by (simp add: example_env_def)

lemma charge_record_fields:
  "currency charge_record = JStr ''usd''"
  "payment_id charge_record = JStr ''ch_1''"
  "failed_at charge_record = JStr ''2023-11-14T22:13:20.000Z''"
  by (simp_all add: charge_record_def)

lemma initial_world_fields:
  "ticks initial_world = 0" "logs initial_world = []" "trace initial_world = []"
  by (simp_all add: initial_world_def)

lemma example_env_channels:
  "gmail_send (example_env mail store) raw = mail"
  "airtable_create (example_env mail store) r = store"
  by (simp_all add: example_env_def)

lemma example_platform:
  "numberToString (example_env mail store) = signed_decimal"
  "Date_now (example_env mail store) k = 1700000001000 + 1000 * int k"
  "hundredthToFixed2 (example_env mail store) (JNum n) = fixed2 n"
  "base64url (example_env mail store) m = m"
  "ALERT_EMAIL (example_env mail store) = None"
  by (simp_all add: example_env_def)

lemma fixed2_2500: "fixed2 2500 = ''25.00''"
  by (simp add: fixed2_def digits_numeral)

lemma encodedMessage_charge:
  "encodedMessage (example_env mail store) charge_record = Inr charge_alert"
  by (simp add: encodedMessage_def gmail_message_def gmail_subject_def gmail_body_def
      amount_toFixed2_def alert_recipient_def currency_toUpperCase_def to_string_def bindE_def
      js_or_def charge_record_def charge_alert_def example_platform toUpperCase_example
      fixed2_2500)

lemma airtable_fields_charge:
  "airtable_fields (example_env mail store) charge_record now = Inr (charge_row now)"
  by (simp add: airtable_fields_def currency_toUpperCase_def bindE_def js_or_def
      charge_record_def charge_row_def toUpperCase_example)

lemma airtable_fields_intent:
  "airtable_fields (example_env mail store) intent_record now = Inr (intent_row now)"
  by (simp add: airtable_fields_def currency_toUpperCase_def bindE_def js_or_def
      intent_record_def intent_row_def toUpperCase_example)

text \<open>The text of some instants: the epoch, the millisecond before it, a leap day, the
  last day of a century that is not a leap year, and the two ends of the range of
  \<^verbatim>\<open>Date\<close>.\<close>

lemma iso_of_ms_samples:
  "iso_of_ms 0 = ''1970-01-01T00:00:00.000Z''"
  "iso_of_ms (- 1) = ''1969-12-31T23:59:59.999Z''"
  "iso_of_ms 1709210096789 = ''2024-02-29T12:34:56.789Z''"
  "iso_of_ms 4107542399000 = ''2100-02-28T23:59:59.000Z''"
  "iso_of_ms 4107542400000 = ''2100-03-01T00:00:00.000Z''"
  "iso_of_ms 951782400000 = ''2000-02-29T00:00:00.000Z''"
  "iso_of_ms 8640000000000000 = ''+275760-09-13T00:00:00.000Z''"
  "iso_of_ms (- 8640000000000000) = ''-271821-04-20T00:00:00.000Z''"
  "iso_of_ms (- 62167219200001) = ''-000001-12-31T23:59:59.999Z''"
  by (simp_all add: iso_of_ms_def iso_date_def civil_from_days_def iso_year_def digits_numeral
      cong: let_weak_cong)

section \<open>The channels, step by step\<close>

lemma trace_addLog': "trace (addLog E msg s) = trace s @ [console_line E (ticks s) msg]"
  by (simp add: trace_addLog console_line_def)

lemma logs_addLog_entry:
  "logs (addLog E msg s) = newest 50 (logs s @ [entry_at E (ticks s) msg])"
  by (simp add: logs_addLog entry_at_def)

lemma newest_append2: "newest k (newest k (xs @ ys) @ zs) = newest k (xs @ ys @ zs)"
  using newest_append [of k "xs @ ys" zs] by simp

lemma mem_newest:
  assumes "x \<in> set ys" and "length ys \<le> k"
  shows "x \<in> set (newest k (xs @ ys))"
proof -
  have "length xs + length ys - k \<le> length xs"
    using assms(2) by simp
  then have "newest k (xs @ ys) = drop (length xs + length ys - k) xs @ ys"
    by (simp add: newest_def)
  with assms(1) show ?thesis by simp
qed

lemma enter_fields:
  "logs (enter f s) = logs s" "ticks (enter f s) = ticks s"
  "trace (enter f s) = trace s @ [Enter f]"
  by (simp_all add: enter_def)

lemma leave_fields:
  "logs (leave f s) = logs s" "ticks (leave f s) = ticks s"
  "trace (leave f s) = trace s @ [Leave f]"
  by (simp_all add: leave_def)

lemma to_string_printable:
  "printable v \<Longrightarrow> to_string num v = Inr (text_of num v)"
  "\<not> printable v \<Longrightarrow> to_string num v = Inl cannot_convert"
  by (simp_all add: to_string_def)

lemma currency_toUpperCase_JStr: "currency_toUpperCase E (JStr c) = Inr (toUpperCase E c)"
  by (simp add: currency_toUpperCase_def)

lemma currency_toUpperCase_Inr:
  "currency_toUpperCase E v = Inr cur \<Longrightarrow> \<exists>c. v = JStr c \<and> cur = toUpperCase E c"
  by (cases v) (auto simp: currency_toUpperCase_def)

subsection \<open>\<^verbatim>\<open>sendGmailAlert\<close>\<close>

lemma fst_sendGmailAlert: "fst (sendGmailAlert E pd s) = Inr ()"
  by (simp add: sendGmailAlert_def sendGmailAlert_try_def Let_def
      split: sum.splits option.splits prod.splits)

lemma trace_sendGmailAlert:
  "trace (snd (sendGmailAlert E pd s))
     = trace s @ [Enter ''sendGmailAlert''] @ mail_effects E pd
       @ [console_line E (ticks s) (mail_log E pd), Leave ''sendGmailAlert'']"
  by (simp add: sendGmailAlert_def sendGmailAlert_try_def Let_def mail_log_def mail_effects_def
      trace_addLog' leave_fields enter_fields split: sum.splits option.splits)

lemma ticks_sendGmailAlert: "ticks (snd (sendGmailAlert E pd s)) = Suc (ticks s)"
  by (simp add: sendGmailAlert_def sendGmailAlert_try_def Let_def
      ticks_addLog leave_fields enter_fields split: sum.splits option.splits)

lemma logs_sendGmailAlert:
  "logs (snd (sendGmailAlert E pd s))
     = newest 50 (logs s @ [entry_at E (ticks s) (mail_log E pd)])"
  by (simp add: sendGmailAlert_def sendGmailAlert_try_def Let_def mail_log_def
      logs_addLog_entry leave_fields enter_fields split: sum.splits option.splits)

subsection \<open>\<^verbatim>\<open>addToAirtable\<close>\<close>

lemma fst_addToAirtable: "fst (addToAirtable E pd s) = store_outcome E pd (ticks s)"
  by (simp add: addToAirtable_def addToAirtable_try_def Let_def store_outcome_def bindE_def
      enter_fields split: sum.splits)

lemma trace_addToAirtable:
  "trace (snd (addToAirtable E pd s))
     = trace s @ [Enter ''addToAirtable''] @ store_effects E pd (ticks s)
       @ [console_line E (ticks s + store_ticks E pd (ticks s)) (store_log E pd (ticks s)),
          Leave ''addToAirtable'']"
  by (simp add: addToAirtable_def addToAirtable_try_def Let_def store_effects_def
      store_ticks_def store_log_def store_outcome_def bindE_def
      trace_addLog' leave_fields enter_fields split: sum.splits)

lemma ticks_addToAirtable:
  "ticks (snd (addToAirtable E pd s)) = Suc (ticks s + store_ticks E pd (ticks s))"
  by (simp add: addToAirtable_def addToAirtable_try_def Let_def store_ticks_def
      ticks_addLog leave_fields enter_fields split: sum.splits)

lemma logs_addToAirtable:
  "logs (snd (addToAirtable E pd s))
     = newest 50 (logs s @ [entry_at E (ticks s + store_ticks E pd (ticks s))
                              (store_log E pd (ticks s))])"
  by (simp add: addToAirtable_def addToAirtable_try_def Let_def store_ticks_def store_log_def
      store_outcome_def bindE_def logs_addLog_entry leave_fields enter_fields
      split: sum.splits)

section \<open>The dispatcher, step by step\<close>

lemma ticks_after_mail: "ticks (after_mail E pd s) = ticks s + 2"
  by (simp add: after_mail_def ticks_sendGmailAlert ticks_addLog enter_fields)

lemma trace_after_mail:
  "trace (after_mail E pd s) =
     trace s @
     [Enter ''processFailedPayment'',
      console_line E (ticks s)
        (''Processing failed payment: '' @ text_of (numberToString E) (payment_id pd)),
      Enter ''sendGmailAlert'']
     @ mail_effects E pd
     @ [console_line E (ticks s + 1) (mail_log E pd), Leave ''sendGmailAlert'']"
  by (simp add: after_mail_def trace_sendGmailAlert trace_addLog' ticks_addLog enter_fields)

lemma logs_after_mail:
  "logs (after_mail E pd s) =
     newest 50 (logs s @
       [entry_at E (ticks s)
          (''Processing failed payment: '' @ text_of (numberToString E) (payment_id pd)),
        entry_at E (ticks s + 1) (mail_log E pd)])"
  by (simp add: after_mail_def logs_sendGmailAlert logs_addLog_entry ticks_addLog enter_fields
      newest_append2)

lemma ticks_after_store:
  "ticks (after_store E pd s) = ticks s + 3 + store_ticks E pd (ticks s + 2)"
  by (simp add: after_store_def ticks_addToAirtable ticks_after_mail)

lemma trace_after_store:
  "trace (after_store E pd s) =
     trace s @
     [Enter ''processFailedPayment'',
      console_line E (ticks s)
        (''Processing failed payment: '' @ text_of (numberToString E) (payment_id pd)),
      Enter ''sendGmailAlert'']
     @ mail_effects E pd
     @ [console_line E (ticks s + 1) (mail_log E pd), Leave ''sendGmailAlert'',
        Enter ''addToAirtable'']
     @ store_effects E pd (ticks s + 2)
     @ [console_line E (ticks s + 2 + store_ticks E pd (ticks s + 2))
          (store_log E pd (ticks s + 2)),
        Leave ''addToAirtable'']"
  by (simp add: after_store_def trace_addToAirtable trace_after_mail ticks_after_mail)

lemma logs_after_store:
  "logs (after_store E pd s) =
     newest 50 (logs s @
       [entry_at E (ticks s)
          (''Processing failed payment: '' @ text_of (numberToString E) (payment_id pd)),
        entry_at E (ticks s + 1) (mail_log E pd),
        entry_at E (ticks s + 2 + store_ticks E pd (ticks s + 2)) (store_log E pd (ticks s + 2))])"
  by (simp add: after_store_def logs_addToAirtable logs_after_mail ticks_after_mail
      newest_append2)

lemma processFailedPayment_delivered:
  assumes "normalize_event ev = Inr pd" and "printable (payment_id pd)"
  shows "processFailedPayment E ev s =
     (case store_outcome E pd (ticks s + 2) of Inl e \<Rightarrow> Inl e | Inr rid \<Rightarrow> Inr (),
      leave ''processFailedPayment''
        (addLog E (processed_log E pd (ticks s + 2)) (after_store E pd s)))"
proof -
  let ?s1 = "addLog E (''Processing failed payment: ''
                       @ text_of (numberToString E) (payment_id pd))
               (enter ''processFailedPayment'' s)"
  have m: "sendGmailAlert E pd ?s1 = (Inr (), after_mail E pd s)"
    using fst_sendGmailAlert [of E pd ?s1]
    by (simp add: after_mail_def prod_eq_iff)
  have a: "addToAirtable E pd (after_mail E pd s)
             = (store_outcome E pd (ticks s + 2), after_store E pd s)"
    using fst_addToAirtable [of E pd "after_mail E pd s"]
    by (simp add: after_store_def prod_eq_iff ticks_after_mail)
  show ?thesis
    using assms m a
    by (simp add: processFailedPayment_def processFailedPayment_try_def Let_def
        to_string_printable processed_log_def split: sum.splits)
qed

lemma filter_effects:
  "filter is_channel (mail_effects E pd) = mail_effects E pd"
  "filter is_channel (store_effects E pd k) = store_effects E pd k"
  "filter (\<lambda>e. \<not> is_console e) (mail_effects E pd) = mail_effects E pd"
  "filter (\<lambda>e. \<not> is_console e) (store_effects E pd k) = store_effects E pd k"
  by (simp_all add: mail_effects_def store_effects_def split: sum.splits)

lemma console_line_kind:
  "\<not> is_channel (console_line E k m)" "is_console (console_line E k m)"
  by (simp_all add: console_line_def)

lemma processed_snd:
  assumes "normalize_event ev = Inr pd" and "printable (payment_id pd)"
  shows "snd (processFailedPayment E ev s) =
           leave ''processFailedPayment''
             (addLog E (processed_log E pd (ticks s + 2)) (after_store E pd s))"
    and "fst (processFailedPayment E ev s) =
           (case store_outcome E pd (ticks s + 2) of Inl e \<Rightarrow> Inl e | Inr rid \<Rightarrow> Inr ())"
  by (simp_all add: processFailedPayment_delivered [OF assms])

lemma processed_effects:
  assumes "normalize_event ev = Inr pd" and "printable (payment_id pd)"
  shows "delivery_effects s (snd (processFailedPayment E ev s)) =
     [Enter ''processFailedPayment'',
      console_line E (ticks s)
        (''Processing failed payment: '' @ text_of (numberToString E) (payment_id pd)),
      Enter ''sendGmailAlert'']
     @ mail_effects E pd
     @ [console_line E (ticks s + 1) (mail_log E pd), Leave ''sendGmailAlert'',
        Enter ''addToAirtable'']
     @ store_effects E pd (ticks s + 2)
     @ [console_line E (ticks s + 2 + store_ticks E pd (ticks s + 2))
          (store_log E pd (ticks s + 2)),
        Leave ''addToAirtable'',
        console_line E (ticks s + 3 + store_ticks E pd (ticks s + 2))
          (processed_log E pd (ticks s + 2)),
        Leave ''processFailedPayment'']"
  by (simp add: processed_snd(1) [OF assms] delivery_effects_def trace_addLog' leave_fields
      trace_after_store ticks_addLog ticks_after_store ac_simps)

lemma processed_channel_effects:
  assumes "normalize_event ev = Inr pd" and "printable (payment_id pd)"
  shows "channel_effects s (snd (processFailedPayment E ev s))
           = mail_effects E pd @ store_effects E pd (ticks s + 2)"
  by (simp add: channel_effects_def processed_effects [OF assms] filter_effects
      console_line_kind)

lemma processed_history:
  assumes "normalize_event ev = Inr pd" and "printable (payment_id pd)"
  shows "history s (snd (processFailedPayment E ev s))
           = [Enter ''processFailedPayment'', Enter ''sendGmailAlert'']
             @ mail_effects E pd
             @ [Leave ''sendGmailAlert'', Enter ''addToAirtable'']
             @ store_effects E pd (ticks s + 2)
             @ [Leave ''addToAirtable'', Leave ''processFailedPayment'']"
  by (simp add: history_def processed_effects [OF assms] filter_effects console_line_kind)

lemma processed_logs:
  assumes "normalize_event ev = Inr pd" and "printable (payment_id pd)"
  shows "logs (snd (processFailedPayment E ev s)) =
     newest 50 (logs s @
       [entry_at E (ticks s)
          (''Processing failed payment: '' @ text_of (numberToString E) (payment_id pd)),
        entry_at E (ticks s + 1) (mail_log E pd),
        entry_at E (ticks s + 2 + store_ticks E pd (ticks s + 2)) (store_log E pd (ticks s + 2)),
        entry_at E (ticks s + 3 + store_ticks E pd (ticks s + 2))
          (processed_log E pd (ticks s + 2))])"
  by (simp add: processed_snd(1) [OF assms] logs_addLog_entry leave_fields
      logs_after_store ticks_addLog ticks_after_store newest_append2 ac_simps)

section \<open>The body parsers, step by step\<close>

text \<open>With \<^verbatim>\<open>express.json()\<close> registered first, the request that reaches the handler holds
  the parsed value; \<^verbatim>\<open>express.raw\<close> finds the body read and leaves the request alone.\<close>

lemma middleware_parsed:
  "middleware E d =
     (case json_parse E (bytes d) of
        Inl e \<Rightarrow> Inl e
      | Inr v \<Rightarrow> Inr \<lparr>body = Parsed v, body_read = True, stripe_signature = signature d\<rparr>)"
  by (simp add: middleware_def express_json_def express_raw_def incoming_def bindE_def
      split: sum.splits)

text \<open>In the other order the handler would be given the bytes.\<close>

lemma raw_first:
  "bindE (express_raw d (incoming d)) (express_json E d)
     = Inr \<lparr>body = Raw (bytes d), body_read = True, stripe_signature = signature d\<rparr>"
  by (simp add: express_json_def express_raw_def incoming_def bindE_def)

lemma post_webhook_parsed:
  assumes "json_parse E (bytes d) = Inr v"
  shows "post_webhook_stripe E d s =
           webhook_stripe E \<lparr>body = Parsed v, body_read = True, stripe_signature = signature d\<rparr> s"
  using assms by (simp add: post_webhook_stripe_def middleware_parsed)

text \<open>
  So when the verifier refuses every payload that is not the raw bytes, as Stripe's does,
  no delivery gets past line 185: the answer is 400, or 500 when the body does not parse,
  and neither \<^verbatim>\<open>processFailedPayment\<close> nor a channel is reached.
\<close>

lemma every_delivery_refused:
  assumes "\<And>v sg. isl (constructEvent E (Parsed v) sg)"
  shows "status (fst (post_webhook_stripe E d s)) \<in> {400, 500}"
    and "history s (snd (post_webhook_stripe E d s)) = []"
    and "channel_effects s (snd (post_webhook_stripe E d s)) = []"
proof -
  show "status (fst (post_webhook_stripe E d s)) \<in> {400, 500}"
  proof (cases "json_parse E (bytes d)")
    case (Inl e)
    then show ?thesis
      by (simp add: post_webhook_stripe_def middleware_parsed error_middleware_def)
  next
    case (Inr v)
    from assms [of v "signature d"] obtain err
      where "constructEvent E (Parsed v) (signature d) = Inl err"
      by (cases "constructEvent E (Parsed v) (signature d)") simp_all
    then show ?thesis
      by (simp add: post_webhook_parsed [OF Inr] webhook_stripe_def)
  qed
  show "history s (snd (post_webhook_stripe E d s)) = []"
  proof (cases "json_parse E (bytes d)")
    case (Inl e)
    then show ?thesis
      by (simp add: post_webhook_stripe_def middleware_parsed error_middleware_def
          history_def delivery_effects_def trace_addLog' console_line_kind)
  next
    case (Inr v)
    from assms [of v "signature d"] obtain err
      where "constructEvent E (Parsed v) (signature d) = Inl err"
      by (cases "constructEvent E (Parsed v) (signature d)") simp_all
    then show ?thesis
      by (simp add: post_webhook_parsed [OF Inr] webhook_stripe_def
          history_def delivery_effects_def trace_addLog' console_line_kind)
  qed
  show "channel_effects s (snd (post_webhook_stripe E d s)) = []"
  proof (cases "json_parse E (bytes d)")
    case (Inl e)
    then show ?thesis
      by (simp add: post_webhook_stripe_def middleware_parsed error_middleware_def
          channel_effects_def delivery_effects_def trace_addLog' console_line_kind)
  next
    case (Inr v)
    from assms [of v "signature d"] obtain err
      where "constructEvent E (Parsed v) (signature d) = Inl err"
      by (cases "constructEvent E (Parsed v) (signature d)") simp_all
    then show ?thesis
      by (simp add: post_webhook_parsed [OF Inr] webhook_stripe_def
          channel_effects_def delivery_effects_def trace_addLog' console_line_kind)
  qed
qed

section \<open>The normalizer, type by type\<close>

lemma get_prop_prop:
  "v \<noteq> JUndefined \<Longrightarrow> v \<noteq> JNull \<Longrightarrow> get_prop v k = Inr (read_prop v k)"
  by (cases v) simp_all

lemma opt_prop_prop: "opt_prop v k = Inr (read_prop v k)"
  by (cases v) (simp_all add: opt_prop_def)

lemma ms_of_seconds:
  fixes s :: int
  shows "s * 1000 div 86400000 = s div 86400"
    and "s * 1000 mod 86400000 = (s mod 86400) * 1000"
proof -
  have "s * 1000 div (86400 * 1000) = s div 86400"
    by (rule div_mult_mult2) simp
  then show "s * 1000 div 86400000 = s div 86400" by simp
  have "s * 1000 mod (86400 * 1000) = (s mod 86400) * 1000"
    by (rule mod_mult_mult2)
  then show "s * 1000 mod 86400000 = (s mod 86400) * 1000" by simp
qed

lemma time_of_day:
  fixes r :: int
  shows "r * 1000 div 3600000 = r div 3600"
    and "r * 1000 div 60000 = r div 60"
proof -
  have "r * 1000 div (3600 * 1000) = r div 3600"
    by (rule div_mult_mult2) simp
  then show "r * 1000 div 3600000 = r div 3600" by simp
  have "r * 1000 div (60 * 1000) = r div 60"
    by (rule div_mult_mult2) simp
  then show "r * 1000 div 60000 = r div 60" by simp
qed

lemma digits_3_0: "digits 3 0 = ''000''"
  by (simp add: digits_numeral)

lemma iso_of_ms_seconds: "iso_of_ms (s * 1000) = iso_instant_of_epoch_seconds s"
  by (simp add: iso_of_ms_def iso_instant_of_epoch_seconds_def Let_def ms_of_seconds
      time_of_day digits_3_0)

lemma failed_at_of_valid:
  assumes "\<bar>created ev * 1000\<bar> \<le> 8640000000000000"
  shows "failed_at_of ev = Inr (JStr (iso_instant_of_epoch_seconds (created ev)))"
  using assms
  by (simp add: failed_at_of_def new_Date_def toISOString_def bindE_def iso_of_ms_seconds)


lemma normalize_intent:
  assumes "etype ev = ''payment_intent.payment_failed''"
    and "get_prop (data ev) ''object'' = Inr obj"
    and "obj \<noteq> JUndefined" and "obj \<noteq> JNull"
    and "failed_at_of ev = Inr at"
  shows "normalize_event ev =
     Inr \<lparr>payment_id = read_prop obj ''id'',
          customer_email = js_or (read_prop obj ''receipt_email'') (JStr ''Unknown''),
          amount = read_prop obj ''amount'',
          currency = read_prop obj ''currency'',
          failure_code = read_prop (read_prop obj ''last_payment_error'') ''code'',
          failure_message = read_prop (read_prop obj ''last_payment_error'') ''message'',
          failed_at = at\<rparr>"
  using assms by (simp add: normalize_event_def bindE_def get_prop_prop opt_prop_prop)

lemma normalize_invoice:
  assumes "etype ev = ''invoice.payment_failed''"
    and "get_prop (data ev) ''object'' = Inr obj"
    and "obj \<noteq> JUndefined" and "obj \<noteq> JNull"
    and "failed_at_of ev = Inr at"
  shows "normalize_event ev =
     Inr \<lparr>payment_id = read_prop obj ''id'',
          customer_email = js_or (read_prop obj ''customer_email'') (JStr ''Unknown''),
          amount = read_prop obj ''amount_due'',
          currency = read_prop obj ''currency'',
          failure_code = JStr ''invoice_payment_failed'',
          failure_message = JStr ''Invoice payment failed'',
          failed_at = at\<rparr>"
  using assms by (simp add: normalize_event_def bindE_def get_prop_prop opt_prop_prop)

lemma normalize_charge:
  assumes "etype ev = ''charge.failed''"
    and "get_prop (data ev) ''object'' = Inr obj"
    and "obj \<noteq> JUndefined" and "obj \<noteq> JNull"
    and "failed_at_of ev = Inr at"
  shows "normalize_event ev =
     Inr \<lparr>payment_id = read_prop obj ''id'',
          customer_email =
            first_present [read_prop obj ''receipt_email'',
                           read_prop (read_prop obj ''billing_details'') ''email'']
              (JStr ''Unknown''),
          amount = read_prop obj ''amount'',
          currency = read_prop obj ''currency'',
          failure_code = read_prop obj ''failure_code'',
          failure_message = read_prop obj ''failure_message'',
          failed_at = at\<rparr>"
  using assms
  by (simp add: normalize_event_def bindE_def get_prop_prop opt_prop_prop js_or_def)

lemma recognized_cases:
  "recognized t \<longleftrightarrow> t = ''payment_intent.payment_failed'' \<or> t = ''invoice.payment_failed''
     \<or> t = ''charge.failed''"
  by (auto simp: recognized_def)

section \<open>When the message and the row can be built\<close>

lemma bindE_Inr: "bindE m f = Inr y \<longleftrightarrow> (\<exists>x. m = Inr x \<and> f x = Inr y)"
  by (cases m) (simp_all add: bindE_def)

lemma to_string_Inr: "to_string num v = Inr t \<Longrightarrow> printable v"
  by (simp add: to_string_def split: if_splits)

lemma gmail_body_Inr:
  assumes "gmail_body E pd = Inr b"
  shows "printable (payment_id pd) \<and> printable (amount pd) \<and> (\<exists>c. currency pd = JStr c)"
proof -
  from assms obtain pid where "to_string (numberToString E) (payment_id pd) = Inr pid"
    by (auto simp: gmail_body_def bindE_Inr)
  then have 1: "printable (payment_id pd)" by (rule to_string_Inr)
  from assms obtain amt where "amount_toFixed2 E (amount pd) = Inr amt"
    by (auto simp: gmail_body_def bindE_Inr)
  then have 2: "printable (amount pd)"
    by (simp add: amount_toFixed2_def split: if_splits)
  from assms obtain cur where "currency_toUpperCase E (currency pd) = Inr cur"
    by (auto simp: gmail_body_def bindE_Inr)
  then have 3: "\<exists>c. currency pd = JStr c"
    using currency_toUpperCase_Inr by blast
  from 1 2 3 show ?thesis by blast
qed

lemma encodedMessage_Inr:
  assumes "encodedMessage E pd = Inr raw"
  shows "printable (payment_id pd) \<and> printable (amount pd) \<and> (\<exists>c. currency pd = JStr c)"
proof -
  from assms obtain b where "gmail_body E pd = Inr b"
    by (auto simp: encodedMessage_def gmail_message_def bindE_Inr)
  then show ?thesis by (rule gmail_body_Inr)
qed

lemma airtable_fields_built:
  assumes "printable (amount pd)" and "currency pd = JStr c"
  shows "\<exists>r. airtable_fields E pd now = Inr r"
  using assms by (simp add: airtable_fields_def bindE_def currency_toUpperCase_JStr)

section \<open>Facts about the examples\<close>

lemma recognized_examples:
  "recognized (etype charge_event)" "\<not> recognized (etype other_event)"
  by (simp_all add: recognized_def charge_event_def other_event_def)

lemma mail_down_send:
  "gmail_send mail_down_env raw = Some (Failure ''invalid_grant'')"
  "airtable_create mail_down_env r = Inr ''rec1''"
  by (simp_all add: mail_down_env_def example_env_channels)

lemma mail_down_built:
  "encodedMessage mail_down_env charge_record = Inr charge_alert"
  "airtable_fields mail_down_env charge_record now = Inr (charge_row now)"
  "clock mail_down_env (Suc (Suc 0)) = ''2023-11-14T22:13:23.000Z''"
  "clock mail_down_env (Suc 0) = ''2023-11-14T22:13:22.000Z''"
  "clock mail_down_env 0 = ''2023-11-14T22:13:21.000Z''"
  by (simp_all add: mail_down_env_def encodedMessage_charge airtable_fields_charge clock_example)

lemma mail_log_failed:
  assumes "encodedMessage E pd = Inr raw" and "gmail_send E raw = Some err"
  shows "mail_log E pd = ''Error sending Gmail alert: '' @ error_message err"
  using assms by (simp add: mail_log_def)

text \<open>What the middleware makes of the example deliveries.\<close>

lemma middleware_examples:
  "middleware (example_env mail store) charge_delivery = Inr charge_request"
  "middleware (example_env mail store) other_delivery = Inr other_request"
  "middleware (example_env mail store) forged_delivery = Inr forged_request"
  by (simp_all add: middleware_parsed json_parse_example charge_delivery_def other_delivery_def
      forged_delivery_def charge_request_def other_request_def forged_request_def)

lemma refused_examples:
  "constructEvent (example_env mail store) (body charge_request) (stripe_signature charge_request)
     = Inl not_raw"
  "constructEvent (example_env mail store) (body other_request) (stripe_signature other_request)
     = Inl not_raw"
  "constructEvent (example_env mail store) (body forged_request) (stripe_signature forged_request)
     = Inl not_raw"
  by (simp_all add: constructEvent_parsed charge_request_def other_request_def forged_request_def)

lemma webhook_refused:
  assumes "constructEvent E (body req) (stripe_signature req) = Inl err"
  shows "webhook_stripe E req s =
           (Send 400 (''Webhook Error: '' @ error_message err),
            addLog E (''Webhook signature verification failed: '' @ error_message err) s)"
  using assms by (simp add: webhook_stripe_def)

lemma one_line_effects:
  "delivery_effects s (addLog E m s) = [console_line E (ticks s) m]"
  "history s (addLog E m s) = []"
  "channel_effects s (addLog E m s) = []"
  by (simp_all add: delivery_effects_def history_def channel_effects_def trace_addLog'
      console_line_kind)

lemma not_raw_message:
  "error_message not_raw = ''Webhook payload must be provided as a string or a Buffer''"
  by (simp add: not_raw_def)

section \<open>The manual trigger, step by step\<close>

lemma post_test_try_run:
  "post_test_try E s =
     (let pd = testPaymentData E (Suc (ticks s));
          s2 = (addLog E ''Manual test initiated'' s)\<lparr>ticks := ticks s + 3\<rparr>;
          s3 = snd (sendGmailAlert E pd s2);
          s4 = snd (addToAirtable E pd s3)
      in case store_outcome E pd (ticks s + 4) of
           Inl e \<Rightarrow> (Inl e, s4)
         | Inr rid \<Rightarrow> (Inr pd, addLog E ''Manual test completed successfully'' s4))"
proof -
  let ?pd = "testPaymentData E (Suc (ticks s))"
  let ?s2 = "(addLog E ''Manual test initiated'' s)\<lparr>ticks := Suc (ticks s) + 2\<rparr>"
  obtain s3 where s3: "s3 = snd (sendGmailAlert E ?pd ?s2)"
    by simp
  obtain s4 where s4: "s4 = snd (addToAirtable E ?pd s3)"
    by simp
  have m: "sendGmailAlert E ?pd ?s2 = (Inr (), s3)"
    using fst_sendGmailAlert [of E ?pd ?s2] by (simp add: prod_eq_iff s3)
  have "ticks s3 = ticks s + 4"
    by (simp add: s3 ticks_sendGmailAlert)
  then have a: "addToAirtable E ?pd s3 = (store_outcome E ?pd (ticks s + 4), s4)"
    using fst_addToAirtable [of E ?pd s3] by (simp add: prod_eq_iff s4)
  have e: "Suc (ticks s) + 2 = ticks s + 3"
    by simp
  have "post_test_try E s =
     (case store_outcome E ?pd (ticks s + 4) of
        Inl e \<Rightarrow> (Inl e, s4)
      | Inr rid \<Rightarrow> (Inr ?pd, addLog E ''Manual test completed successfully'' s4))"
    using m a by (simp add: post_test_try_def Let_def ticks_addLog split: sum.splits)
  then show ?thesis
    unfolding s4 s3 e by (simp add: Let_def)
qed

lemma trace_post_test_channels:
  "trace (snd (addToAirtable E pd
            (snd (sendGmailAlert E pd
                    ((addLog E ''Manual test initiated'' s)\<lparr>ticks := ticks s + 3\<rparr>)))))
     = trace s
       @ [console_line E (ticks s) ''Manual test initiated'', Enter ''sendGmailAlert'']
       @ mail_effects E pd
       @ [console_line E (ticks s + 3) (mail_log E pd), Leave ''sendGmailAlert'',
          Enter ''addToAirtable'']
       @ store_effects E pd (ticks s + 4)
       @ [console_line E (ticks s + 4 + store_ticks E pd (ticks s + 4))
            (store_log E pd (ticks s + 4)),
          Leave ''addToAirtable'']"
proof -
  have t: "ticks (snd (sendGmailAlert E pd
                    ((addLog E ''Manual test initiated'' s)\<lparr>ticks := ticks s + 3\<rparr>)))
             = ticks s + 4"
    by (simp add: ticks_sendGmailAlert)
  show ?thesis
    by (simp add: trace_addToAirtable t trace_sendGmailAlert trace_addLog')
qed

lemma post_test_channel_effects:
  "channel_effects s (snd (post_test E s))
     = mail_effects E (testPaymentData E (Suc (ticks s)))
       @ store_effects E (testPaymentData E (Suc (ticks s))) (ticks s + 4)"
  by (simp add: post_test_def post_test_try_run Let_def channel_effects_def delivery_effects_def
      trace_post_test_channels trace_addLog' filter_effects console_line_kind
      split: sum.splits)

lemma post_test_response:
  "fst (post_test E s)
     = (case store_outcome E (testPaymentData E (Suc (ticks s))) (ticks s + 4) of
          Inl e \<Rightarrow> Json 500 [(''success'', JBool False), (''error'', JStr (error_message e))]
        | Inr rid \<Rightarrow>
            Json 200 [(''success'', JBool True),
                      (''message'', JStr ''Test completed successfully''),
                      (''testData'', record_object (testPaymentData E (Suc (ticks s))))])"
  by (simp add: post_test_def post_test_try_run Let_def split: sum.splits)

lemma decimal_example: "signed_decimal 1700000002000 = ''1700000002000''"
  by (simp add: signed_decimal_def)

lemma iso_of_ms_later:
  "iso_of_ms 1700000005000 = ''2023-11-14T22:13:25.000Z''"
  by (simp add: iso_of_ms_def iso_date_def civil_from_days_def iso_year_def digits_numeral
      cong: let_weak_cong)

lemma testPaymentData_example:
  "testPaymentData (example_env mail store) (Suc 0) = test_record"
  by (simp add: testPaymentData_def test_record_def example_platform decimal_example
      clock_example)

lemma encodedMessage_test:
  "encodedMessage (example_env mail store) test_record = Inr test_alert"
  by (simp add: encodedMessage_def gmail_message_def gmail_subject_def gmail_body_def
      amount_toFixed2_def alert_recipient_def currency_toUpperCase_def to_string_def bindE_def
      js_or_def test_record_def test_alert_def example_platform toUpperCase_example
      fixed2_2500)

lemma airtable_fields_test:
  "airtable_fields (example_env mail store) test_record
     (clock (example_env mail store) 4) = Inr test_row"
  by (simp add: airtable_fields_def currency_toUpperCase_def bindE_def js_or_def
      test_record_def test_row_def toUpperCase_example clock_example_env iso_of_ms_later)

section \<open>Claims about the dispatcher\<close>

text \<open>
  C4. When the verification of the signature fails with an error \<open>err\<close>, the handler
  answers 400 with the text \<open>Webhook Error: \<close> followed by the error's message, and the
  whole of what it does is one append to the log, of \<open>Webhook signature verification
  failed: \<close> and the message. All that happens is the console line of that log entry:
  none of the program's functions is entered (so the normalizer, which is the head of
  \<^verbatim>\<open>processFailedPayment\<close>, is not run) and no call of the e-mail or of the table client is
  made. The entry is the newest of the sink.
\<close>

theorem invalid_signature_rejected:
  assumes "constructEvent E (body req) (stripe_signature req) = Inl err"
    and "webhook_stripe E req s = (res, s')"
  shows "res = Send 400 (''Webhook Error: '' @ error_message err) \<and> status res = 400 \<and>
         s' = addLog E (''Webhook signature verification failed: '' @ error_message err) s \<and>
         delivery_effects s s' =
           [console_line E (ticks s)
              (''Webhook signature verification failed: '' @ error_message err)] \<and>
         history s s' = [] \<and>
         channel_effects s s' = [] \<and>
         last (logs s') =
           entry_at E (ticks s) (''Webhook signature verification failed: '' @ error_message err)"
  using assms
  by (auto simp: webhook_stripe_def trace_addLog' logs_addLog newest_def history_def
      channel_effects_def delivery_effects_def console_line_def entry_at_def)

text \<open>The failed charge under a forged header, as the middleware hands it to the
  handler.\<close>

theorem invalid_signature_rejected_witness:
  "middleware mail_down_env forged_delivery = Inr forged_request \<and>
   constructEvent mail_down_env (body forged_request) (stripe_signature forged_request)
     = Inl not_raw \<and>
   fst (webhook_stripe mail_down_env forged_request initial_world)
     = Send 400 ''Webhook Error: Webhook payload must be provided as a string or a Buffer'' \<and>
   history initial_world (snd (webhook_stripe mail_down_env forged_request initial_world)) = [] \<and>
   channel_effects initial_world (snd (webhook_stripe mail_down_env forged_request initial_world)) = []"
proof -
  have m: "middleware mail_down_env forged_delivery = Inr forged_request"
    by (simp add: mail_down_env_def middleware_examples)
  have v: "constructEvent mail_down_env (body forged_request) (stripe_signature forged_request)
             = Inl not_raw"
    by (simp add: mail_down_env_def refused_examples)
  have t:
    "fst (webhook_stripe mail_down_env forged_request initial_world)
       = Send 400 (''Webhook Error: '' @ error_message not_raw) \<and>
     status (fst (webhook_stripe mail_down_env forged_request initial_world)) = 400 \<and>
     snd (webhook_stripe mail_down_env forged_request initial_world)
       = addLog mail_down_env (''Webhook signature verification failed: '' @ error_message not_raw)
           initial_world \<and>
     delivery_effects initial_world
       (snd (webhook_stripe mail_down_env forged_request initial_world))
       = [console_line mail_down_env (ticks initial_world)
            (''Webhook signature verification failed: '' @ error_message not_raw)] \<and>
     history initial_world
       (snd (webhook_stripe mail_down_env forged_request initial_world)) = [] \<and>
     channel_effects initial_world
       (snd (webhook_stripe mail_down_env forged_request initial_world)) = [] \<and>
     last (logs (snd (webhook_stripe mail_down_env forged_request initial_world)))
       = entry_at mail_down_env (ticks initial_world)
           (''Webhook signature verification failed: '' @ error_message not_raw)"
    by (rule invalid_signature_rejected [OF v]) simp
  from t have "fst (webhook_stripe mail_down_env forged_request initial_world)
     = Send 400 ''Webhook Error: Webhook payload must be provided as a string or a Buffer''"
    by (simp add: not_raw_message)
  with m v t show ?thesis by blast
qed

text \<open>
  C5 fails on the delivery of an authentic event of a type that is not handled. Stripe's
  header verifies over the bytes of the body and the event in them is of the type
  \<open>customer.created\<close>; but \<^verbatim>\<open>express.json()\<close> is registered before \<^verbatim>\<open>express.raw\<close>, so the
  handler passes the parsed value to the verifier, which refuses it. The delivery is
  answered 400 with the verification error, not 200 with \<open>{received: true}\<close>, and what is
  logged is the failed verification, not the unhandled type.
\<close>

theorem signed_unhandled_delivery_refused:
  "constructEvent healthy_env (Raw (bytes other_delivery)) (signature other_delivery)
     = Inr other_event \<and>
   etype other_event = ''customer.created'' \<and>
   \<not> recognized (etype other_event) \<and>
   middleware healthy_env other_delivery = Inr other_request \<and>
   body other_request = Parsed other_json \<and>
   post_webhook_stripe healthy_env other_delivery initial_world
     = (Send 400 ''Webhook Error: Webhook payload must be provided as a string or a Buffer'',
        addLog healthy_env
          (''Webhook signature verification failed: ''
           @ ''Webhook payload must be provided as a string or a Buffer'')
          initial_world) \<and>
   status (fst (post_webhook_stripe healthy_env other_delivery initial_world)) = 400"
proof -
  have m: "middleware healthy_env other_delivery = Inr other_request"
    by (simp add: healthy_env_def middleware_examples)
  have v: "constructEvent healthy_env (body other_request) (stripe_signature other_request)
             = Inl not_raw"
    by (simp add: healthy_env_def refused_examples)
  have p: "post_webhook_stripe healthy_env other_delivery initial_world
     = (Send 400 ''Webhook Error: Webhook payload must be provided as a string or a Buffer'',
        addLog healthy_env
          (''Webhook signature verification failed: ''
           @ ''Webhook payload must be provided as a string or a Buffer'')
          initial_world)"
    by (simp add: post_webhook_stripe_def m webhook_refused [OF v] not_raw_message)
  have r: "constructEvent healthy_env (Raw (bytes other_delivery)) (signature other_delivery)
     = Inr other_event"
    by (simp add: healthy_env_def constructEvent_raw)
  have t: "etype other_event = ''customer.created''" "body other_request = Parsed other_json"
    by (simp_all add: other_event_def other_request_def)
  from r t m p recognized_examples(2) show ?thesis by simp
qed

section \<open>The order of the two channels\<close>

text \<open>
  When \<^verbatim>\<open>processFailedPayment\<close> is run on an event for which the normalizer produces a record,
  it completes the attempt to notify before it starts the attempt to store
  (\<open>processed_history\<close>). But no delivery brings it that far.

  C6 fails on the delivery of an authentic failed charge. Stripe's header verifies over
  the bytes of the body and the type of the event is recognized; but the handler passes
  the parsed value to the verifier, which refuses it, so the delivery is answered 400:
  \<^verbatim>\<open>processFailedPayment\<close> is not entered, and neither the send of the e-mail nor the
  append to the table is attempted.
\<close>

theorem signed_recognized_delivery_reaches_no_channel:
  "constructEvent healthy_env (Raw (bytes charge_delivery)) (signature charge_delivery)
     = Inr charge_event \<and>
   recognized (etype charge_event) \<and>
   middleware healthy_env charge_delivery = Inr charge_request \<and>
   body charge_request = Parsed charge_json \<and>
   fst (post_webhook_stripe healthy_env charge_delivery initial_world)
     = Send 400 ''Webhook Error: Webhook payload must be provided as a string or a Buffer'' \<and>
   history initial_world (snd (post_webhook_stripe healthy_env charge_delivery initial_world))
     = [] \<and>
   channel_effects initial_world
     (snd (post_webhook_stripe healthy_env charge_delivery initial_world)) = []"
proof -
  have m: "middleware healthy_env charge_delivery = Inr charge_request"
    by (simp add: healthy_env_def middleware_examples)
  have v: "constructEvent healthy_env (body charge_request) (stripe_signature charge_request)
             = Inl not_raw"
    by (simp add: healthy_env_def refused_examples)
  have p: "post_webhook_stripe healthy_env charge_delivery initial_world
     = (Send 400 ''Webhook Error: Webhook payload must be provided as a string or a Buffer'',
        addLog healthy_env
          (''Webhook signature verification failed: ''
           @ ''Webhook payload must be provided as a string or a Buffer'')
          initial_world)"
    by (simp add: post_webhook_stripe_def m webhook_refused [OF v] not_raw_message)
  have r: "constructEvent healthy_env (Raw (bytes charge_delivery)) (signature charge_delivery)
     = Inr charge_event"
    by (simp add: healthy_env_def constructEvent_raw)
  have t: "body charge_request = Parsed charge_json"
    by (simp add: charge_request_def)
  from r t m recognized_examples(1) show ?thesis
    by (simp add: p one_line_effects)
qed

section \<open>A failed send\<close>

text \<open>
  C1, as the code has it. When \<^verbatim>\<open>processFailedPayment\<close> is run on an event of a
  recognized type for whose record the message can be built, and the send of the e-mail
  fails with an error \<open>err\<close>: the error is logged (\<open>Error sending Gmail alert: \<close> and its
  message, an entry of the sink afterwards) and is not thrown again; \<^verbatim>\<open>sendGmailAlert\<close> is
  left, \<^verbatim>\<open>addToAirtable\<close> is entered and the row of the same record is added to the table,
  after the failed send; and \<^verbatim>\<open>processFailedPayment\<close> throws, which is what the handler
  answers with 500, exactly when the create throws.
\<close>

theorem gmail_failure_is_logged_and_store_still_runs:
  assumes "recognized (etype ev)"
    and "normalize_event ev = Inr pd"
    and "encodedMessage E pd = Inr raw"
    and "gmail_send E raw = Some err"
    and "processFailedPayment E ev s = (res, s')"
  shows "entry_at E (ticks s + 1) (''Error sending Gmail alert: '' @ error_message err)
           \<in> set (logs s') \<and>
         (\<exists>r. airtable_fields E pd (clock E (ticks s + 2)) = Inr r \<and>
              history s s'
                = [Enter ''processFailedPayment'', Enter ''sendGmailAlert'', GmailSend raw,
                   Leave ''sendGmailAlert'', Enter ''addToAirtable'', AirtableCreate r,
                   Leave ''addToAirtable'', Leave ''processFailedPayment''] \<and>
              res = (case airtable_create E r of Inl e \<Rightarrow> Inl e | Inr rid \<Rightarrow> Inr ()))"
proof -
  have s': "s' = snd (processFailedPayment E ev s)"
    and res: "res = fst (processFailedPayment E ev s)"
    using assms(5) by simp_all
  from encodedMessage_Inr [OF assms(3)] obtain c
    where p: "printable (payment_id pd)" and a: "printable (amount pd)"
      and c: "currency pd = JStr c"
    by blast
  from airtable_fields_built [OF a c] obtain r
    where r: "airtable_fields E pd (clock E (ticks s + 2)) = Inr r"
    by blast
  note d = assms(2) p
  have "entry_at E (ticks s + 1) (mail_log E pd) \<in> set (logs s')"
    by (simp add: s' processed_logs [OF d] mem_newest)
  then have logged:
    "entry_at E (ticks s + 1) (''Error sending Gmail alert: '' @ error_message err)
       \<in> set (logs s')"
    by (simp add: mail_log_failed [OF assms(3,4)])
  have hist: "history s s'
                = [Enter ''processFailedPayment'', Enter ''sendGmailAlert'', GmailSend raw,
                   Leave ''sendGmailAlert'', Enter ''addToAirtable'', AirtableCreate r,
                   Leave ''addToAirtable'', Leave ''processFailedPayment'']"
    using r assms(3)
    by (simp add: s' processed_history [OF d] mail_effects_def store_effects_def)
  have outcome: "res = (case airtable_create E r of Inl e \<Rightarrow> Inl e | Inr rid \<Rightarrow> Inr ())"
    using r
    by (simp add: res processed_snd(2) [OF d] store_outcome_def bindE_def split: sum.splits)
  from logged r hist outcome show ?thesis by blast
qed

text \<open>The failed charge while the e-mail provider refuses the send: the row is added and
  nothing is thrown.\<close>

theorem gmail_failure_is_logged_and_store_still_runs_witness:
  "recognized (etype charge_event) \<and>
   normalize_event charge_event = Inr charge_record \<and>
   encodedMessage mail_down_env charge_record = Inr charge_alert \<and>
   gmail_send mail_down_env charge_alert = Some (Failure ''invalid_grant'') \<and>
   \<lparr>timestamp = ''2023-11-14T22:13:22.000Z'',
    message = ''Error sending Gmail alert: invalid_grant''\<rparr>
     \<in> set (logs (snd (processFailedPayment mail_down_env charge_event initial_world))) \<and>
   history initial_world (snd (processFailedPayment mail_down_env charge_event initial_world))
     = [Enter ''processFailedPayment'', Enter ''sendGmailAlert'', GmailSend charge_alert,
        Leave ''sendGmailAlert'', Enter ''addToAirtable'',
        AirtableCreate (charge_row ''2023-11-14T22:13:23.000Z''),
        Leave ''addToAirtable'', Leave ''processFailedPayment''] \<and>
   fst (processFailedPayment mail_down_env charge_event initial_world) = Inr ()"
proof -
  note h = recognized_examples(1) normalize_charge_event
    mail_down_built(1) mail_down_send(1) [of charge_alert]
  from gmail_failure_is_logged_and_store_still_runs [OF h prod.collapse [symmetric],
      of initial_world]
  have
   "\<lparr>timestamp = ''2023-11-14T22:13:22.000Z'',
      message = ''Error sending Gmail alert: invalid_grant''\<rparr>
       \<in> set (logs (snd (processFailedPayment mail_down_env charge_event initial_world))) \<and>
    history initial_world (snd (processFailedPayment mail_down_env charge_event initial_world))
       = [Enter ''processFailedPayment'', Enter ''sendGmailAlert'', GmailSend charge_alert,
          Leave ''sendGmailAlert'', Enter ''addToAirtable'',
          AirtableCreate (charge_row ''2023-11-14T22:13:23.000Z''),
          Leave ''addToAirtable'', Leave ''processFailedPayment''] \<and>
    fst (processFailedPayment mail_down_env charge_event initial_world) = Inr ()"
    by (auto simp: mail_down_built mail_down_send initial_world_fields entry_at_def)
  with h show ?thesis by blast
qed

text \<open>
  C1 as the spec states it fails wherever the two channels are run while the e-mail
  provider refuses the send. On the failed charge, whose type is recognized,
  \<^verbatim>\<open>processFailedPayment\<close> calls the table after the failed send and returns without
  throwing, so the handler's answer of 500 is not reached. And the manual trigger, which
  runs the same two channels in the same order, calls the table after the failed send
  and answers 200.
\<close>

theorem gmail_failure_aborts_counterexample:
  "recognized (etype charge_event) \<and>
   normalize_event charge_event = Inr charge_record \<and>
   gmail_send mail_down_env charge_alert = Some (Failure ''invalid_grant'') \<and>
   channel_effects initial_world
     (snd (processFailedPayment mail_down_env charge_event initial_world))
     = [GmailSend charge_alert, AirtableCreate (charge_row ''2023-11-14T22:13:23.000Z'')] \<and>
   fst (processFailedPayment mail_down_env charge_event initial_world) = Inr () \<and>
   gmail_send mail_down_env test_alert = Some (Failure ''invalid_grant'') \<and>
   channel_effects initial_world (snd (post_test mail_down_env initial_world))
     = [GmailSend test_alert, AirtableCreate test_row] \<and>
   status (fst (post_test mail_down_env initial_world)) = 200"
proof -
  have p: "printable (payment_id charge_record)"
    by (simp add: charge_record_fields)
  note d = normalize_charge_event p
  have effects:
    "channel_effects initial_world
       (snd (processFailedPayment mail_down_env charge_event initial_world))
       = [GmailSend charge_alert, AirtableCreate (charge_row ''2023-11-14T22:13:23.000Z'')]"
    by (simp add: processed_channel_effects [OF d] mail_effects_def store_effects_def
        mail_down_built initial_world_fields)
  have outcome: "fst (processFailedPayment mail_down_env charge_event initial_world) = Inr ()"
    by (simp add: processed_snd(2) [OF d] store_outcome_def bindE_def
        mail_down_built mail_down_send)
  have t: "testPaymentData mail_down_env (Suc (ticks initial_world)) = test_record"
    by (simp add: mail_down_env_def testPaymentData_example initial_world_fields)
  have built:
    "encodedMessage mail_down_env test_record = Inr test_alert"
    "airtable_fields mail_down_env test_record (clock mail_down_env (ticks initial_world + 4))
       = Inr test_row"
    by (simp_all add: mail_down_env_def encodedMessage_test airtable_fields_test
        initial_world_fields)
  have test_effects:
    "channel_effects initial_world (snd (post_test mail_down_env initial_world))
       = [GmailSend test_alert, AirtableCreate test_row]"
    by (simp add: post_test_channel_effects t mail_effects_def store_effects_def built)
  have test_status: "status (fst (post_test mail_down_env initial_world)) = 200"
    by (simp add: post_test_response t store_outcome_def bindE_def built mail_down_send)
  from effects outcome test_effects test_status recognized_examples(1) normalize_charge_event
    mail_down_send(1) [of charge_alert] mail_down_send(1) [of test_alert]
  show ?thesis by simp
qed

section \<open>Claims about the normalizer\<close>

lemma truthy_js_or_Unknown: "truthy (js_or v (JStr ''Unknown''))"
  by (simp add: js_or_def)

lemma truthy_first_present_Unknown: "truthy (first_present vs (JStr ''Unknown''))"
  by (induction vs) simp_all

lemma truthy_defined: "truthy v \<Longrightarrow> v \<noteq> JUndefined"
  by (cases v) simp_all

lemma example_payloads:
  "get_prop (data charge_event) ''object'' = Inr example_charge"
  "get_prop (data intent_event) ''object'' = Inr example_intent"
  "example_charge \<noteq> JUndefined" "example_charge \<noteq> JNull"
  "example_intent \<noteq> JUndefined" "example_intent \<noteq> JNull"
  "\<bar>created charge_event * 1000\<bar> \<le> 8640000000000000"
  "\<bar>created intent_event * 1000\<bar> \<le> 8640000000000000"
  by (simp_all add: charge_event_def intent_event_def example_charge_def example_intent_def)

lemma example_types:
  "etype charge_event = ''charge.failed''"
  "etype intent_event = ''payment_intent.payment_failed''"
  "recognized (etype intent_event)"
  by (simp_all add: charge_event_def intent_event_def recognized_def)

lemma normalize_intent_event: "normalize_event intent_event = Inr intent_record"
  by (simp add: normalize_event_def intent_event_def example_intent_def intent_record_def
      bindE_def js_or_def opt_prop_def failed_at_example)

lemma iso_instant_example:
  "iso_instant_of_epoch_seconds 1700000000 = ''2023-11-14T22:13:20.000Z''"
  using iso_of_ms_seconds [of 1700000000] by (simp add: iso_of_ms_example)

text \<open>
  C3. For an event of one of the three recognized types that carries a payload object
  and whose creation time is within the range of \<^verbatim>\<open>Date\<close>, the normalizer produces a
  record; its amount is the payload's \<^verbatim>\<open>amount\<close> (\<^verbatim>\<open>amount_due\<close> for an invoice) and its
  currency the payload's \<^verbatim>\<open>currency\<close>, unchanged; its \<open>failed_at\<close> is the creation time, in
  seconds since the epoch, written as an ISO instant (what \<^verbatim>\<open>new Date(created *
  1000).toISOString()\<close> gives is what the conversion of the seconds gives).
\<close>

theorem normalizer_copies_amount_currency_time:
  assumes "recognized (etype ev)"
    and "get_prop (data ev) ''object'' = Inr obj"
    and "obj \<noteq> JUndefined" and "obj \<noteq> JNull"
    and "\<bar>created ev * 1000\<bar> \<le> 8640000000000000"
  shows "\<exists>pd. normalize_event ev = Inr pd \<and>
           amount pd = read_prop obj (amount_field (etype ev)) \<and>
           currency pd = read_prop obj ''currency'' \<and>
           failed_at pd = JStr (iso_instant_of_epoch_seconds (created ev))"
proof -
  note at = failed_at_of_valid [OF assms(5)]
  from assms(1) consider "etype ev = ''payment_intent.payment_failed''"
    | "etype ev = ''invoice.payment_failed''" | "etype ev = ''charge.failed''"
    by (auto simp: recognized_cases)
  then show ?thesis
  proof cases
    case 1
    then show ?thesis
      by (simp add: normalize_intent [OF 1 assms(2-4) at] amount_field_def)
  next
    case 2
    then show ?thesis
      by (simp add: normalize_invoice [OF 2 assms(2-4) at] amount_field_def)
  next
    case 3
    then show ?thesis
      by (simp add: normalize_charge [OF 3 assms(2-4) at] amount_field_def)
  qed
qed

text \<open>The failed charge of the spec's round trip: 2500, usd, and second 1700000000 as
  2023-11-14T22:13:20.000Z.\<close>

theorem normalizer_copies_amount_currency_time_witness:
  "recognized (etype charge_event) \<and>
   get_prop (data charge_event) ''object'' = Inr example_charge \<and>
   example_charge \<noteq> JUndefined \<and> example_charge \<noteq> JNull \<and>
   \<bar>created charge_event * 1000\<bar> \<le> 8640000000000000 \<and>
   (\<exists>pd. normalize_event charge_event = Inr pd \<and>
         amount pd = JNum 2500 \<and> currency pd = JStr ''usd'' \<and>
         failed_at pd = JStr ''2023-11-14T22:13:20.000Z'')"
proof -
  note h = recognized_examples(1) example_payloads(1,3,4,7)
  have "\<exists>pd. normalize_event charge_event = Inr pd \<and>
           amount pd = read_prop example_charge (amount_field (etype charge_event)) \<and>
           currency pd = read_prop example_charge ''currency'' \<and>
           failed_at pd = JStr (iso_instant_of_epoch_seconds (created charge_event))"
    by (rule normalizer_copies_amount_currency_time [OF h])
  moreover have "read_prop example_charge (amount_field (etype charge_event)) = JNum 2500"
    "read_prop example_charge ''currency'' = JStr ''usd''"
    "iso_instant_of_epoch_seconds (created charge_event) = ''2023-11-14T22:13:20.000Z''"
    using iso_instant_example
    by (simp_all add: example_charge_def amount_field_def charge_event_def)
  ultimately show ?thesis using h by simp
qed

text \<open>
  C8. For a failed charge that carries a payload object and whose creation time is within
  the range of \<^verbatim>\<open>Date\<close>, the normalizer produces a record whose \<open>customer_email\<close> is the
  first present one of the charge's \<^verbatim>\<open>receipt_email\<close> and its \<^verbatim>\<open>billing_details.email\<close>, in
  that order, and \<open>Unknown\<close> when neither is present.
\<close>

theorem charge_email_fallback:
  assumes "etype ev = ''charge.failed''"
    and "get_prop (data ev) ''object'' = Inr charge"
    and "charge \<noteq> JUndefined" and "charge \<noteq> JNull"
    and "\<bar>created ev * 1000\<bar> \<le> 8640000000000000"
  shows "\<exists>pd. normalize_event ev = Inr pd \<and>
           customer_email pd =
             first_present [read_prop charge ''receipt_email'',
                            read_prop (read_prop charge ''billing_details'') ''email'']
               (JStr ''Unknown'') \<and>
           customer_email pd =
             (if truthy (read_prop charge ''receipt_email'') then read_prop charge ''receipt_email''
              else if truthy (read_prop (read_prop charge ''billing_details'') ''email'')
                then read_prop (read_prop charge ''billing_details'') ''email''
              else JStr ''Unknown'')"
  by (simp add: normalize_charge [OF assms(1-4) failed_at_of_valid [OF assms(5)]])

text \<open>A charge without a receipt e-mail: the billing e-mail is taken.\<close>

theorem charge_email_fallback_witness:
  "etype billing_charge_event = ''charge.failed'' \<and>
   get_prop (data billing_charge_event) ''object'' = Inr billing_charge \<and>
   billing_charge \<noteq> JUndefined \<and> billing_charge \<noteq> JNull \<and>
   \<bar>created billing_charge_event * 1000\<bar> \<le> 8640000000000000 \<and>
   (\<exists>pd. normalize_event billing_charge_event = Inr pd \<and> customer_email pd = JStr ''c@d.com'')"
proof -
  have h: "etype billing_charge_event = ''charge.failed''"
    "get_prop (data billing_charge_event) ''object'' = Inr billing_charge"
    "billing_charge \<noteq> JUndefined" "billing_charge \<noteq> JNull"
    "\<bar>created billing_charge_event * 1000\<bar> \<le> 8640000000000000"
    by (simp_all add: billing_charge_event_def billing_charge_def)
  have e: "first_present [read_prop billing_charge ''receipt_email'',
                          read_prop (read_prop billing_charge ''billing_details'') ''email'']
             (JStr ''Unknown'') = JStr ''c@d.com''"
    by (simp add: billing_charge_def)
  from charge_email_fallback [OF h] obtain pd where
    "normalize_event billing_charge_event = Inr pd"
    "customer_email pd =
       first_present [read_prop billing_charge ''receipt_email'',
                      read_prop (read_prop billing_charge ''billing_details'') ''email'']
         (JStr ''Unknown'')"
    by blast
  with e have "\<exists>pd. normalize_event billing_charge_event = Inr pd \<and>
                customer_email pd = JStr ''c@d.com''"
    by simp
  with h show ?thesis by blast
qed

text \<open>
  C2, as the code has it. For an event of one of the three recognized types that carries
  a payload object and whose creation time is within the range of \<^verbatim>\<open>Date\<close>, the normalizer
  produces a record in which \<open>customer_email\<close> and \<open>failed_at\<close> are always defined;
  \<open>payment_id\<close>, \<open>amount\<close> and \<open>currency\<close> are the payload's fields as they are;
  \<open>failure_code\<close> and \<open>failure_message\<close> are the two constants for an invoice, the
  payload's fields of these names for a charge, and the \<^verbatim>\<open>code\<close> and \<^verbatim>\<open>message\<close> of the
  payload's \<^verbatim>\<open>last_payment_error\<close> for a payment intent: these two are \<^verbatim>\<open>undefined\<close> in the
  record when the payload has no last-error object.
\<close>

theorem record_fields_of_recognized_event:
  assumes "recognized (etype ev)"
    and "get_prop (data ev) ''object'' = Inr obj"
    and "obj \<noteq> JUndefined" and "obj \<noteq> JNull"
    and "\<bar>created ev * 1000\<bar> \<le> 8640000000000000"
  shows "\<exists>pd. normalize_event ev = Inr pd \<and>
           customer_email pd \<noteq> JUndefined \<and> failed_at pd \<noteq> JUndefined \<and>
           payment_id pd = read_prop obj ''id'' \<and>
           amount pd = read_prop obj (amount_field (etype ev)) \<and>
           currency pd = read_prop obj ''currency'' \<and>
           failure_code pd = failure_code_source (etype ev) obj \<and>
           failure_message pd = failure_message_source (etype ev) obj \<and>
           (etype ev = ''payment_intent.payment_failed'' \<and>
            (read_prop obj ''last_payment_error'' = JUndefined
               \<or> read_prop obj ''last_payment_error'' = JNull) \<longrightarrow>
            failure_code pd = JUndefined \<and> failure_message pd = JUndefined)"
proof -
  note at = failed_at_of_valid [OF assms(5)]
  from assms(1) consider "etype ev = ''payment_intent.payment_failed''"
    | "etype ev = ''invoice.payment_failed''" | "etype ev = ''charge.failed''"
    by (auto simp: recognized_cases)
  then show ?thesis
  proof cases
    case 1
    show ?thesis
      using truthy_defined [OF truthy_js_or_Unknown [of "read_prop obj ''receipt_email''"]]
      by (auto simp: normalize_intent [OF 1 assms(2-4) at] amount_field_def
          failure_code_source_def failure_message_source_def 1)
  next
    case 2
    show ?thesis
      using truthy_defined [OF truthy_js_or_Unknown [of "read_prop obj ''customer_email''"]]
      by (simp add: normalize_invoice [OF 2 assms(2-4) at] amount_field_def
          failure_code_source_def failure_message_source_def 2)
  next
    case 3
    show ?thesis
      using truthy_defined [OF truthy_first_present_Unknown
          [of "[read_prop obj ''receipt_email'',
                read_prop (read_prop obj ''billing_details'') ''email'']"]]
      by (simp add: normalize_charge [OF 3 assms(2-4) at] amount_field_def
          failure_code_source_def failure_message_source_def 3)
  qed
qed

text \<open>The payment intent without a last-error object.\<close>

theorem record_fields_of_recognized_event_witness:
  "recognized (etype intent_event) \<and>
   get_prop (data intent_event) ''object'' = Inr example_intent \<and>
   example_intent \<noteq> JUndefined \<and> example_intent \<noteq> JNull \<and>
   \<bar>created intent_event * 1000\<bar> \<le> 8640000000000000 \<and>
   read_prop example_intent ''last_payment_error'' = JNull \<and>
   (\<exists>pd. normalize_event intent_event = Inr pd \<and>
         customer_email pd \<noteq> JUndefined \<and> failed_at pd \<noteq> JUndefined \<and>
         payment_id pd = JStr ''pi_1'' \<and>
         failure_code pd = JUndefined \<and> failure_message pd = JUndefined)"
proof -
  note h = example_types(3) example_payloads(2,5,6,8)
  have p: "read_prop example_intent ''last_payment_error'' = JNull"
    "read_prop example_intent ''id'' = JStr ''pi_1''"
    by (simp_all add: example_intent_def)
  from record_fields_of_recognized_event [OF h] p example_types(2)
  have "\<exists>pd. normalize_event intent_event = Inr pd \<and>
         customer_email pd \<noteq> JUndefined \<and> failed_at pd \<noteq> JUndefined \<and>
         payment_id pd = JStr ''pi_1'' \<and>
         failure_code pd = JUndefined \<and> failure_message pd = JUndefined"
    by auto
  with h p(1) show ?thesis by blast
qed

text \<open>
  C2 as the spec states it fails on that payment intent: the event is recognized, the
  normalizer produces a record, and the record's \<open>failure_code\<close> and \<open>failure_message\<close>
  are \<^verbatim>\<open>undefined\<close>.
\<close>

theorem record_fully_populated_counterexample:
  "recognized (etype intent_event) \<and>
   read_prop example_intent ''last_payment_error'' = JNull \<and>
   normalize_event intent_event = Inr intent_record \<and>
   failure_code intent_record = JUndefined \<and>
   failure_message intent_record = JUndefined"
  using example_types(3) normalize_intent_event
  by (simp add: example_intent_def intent_record_def)

section \<open>Claims about the two channels\<close>

text \<open>
  C9. Whatever the record, the environment and the state, \<^verbatim>\<open>sendGmailAlert\<close> returns
  normally: it never gives an exception to its caller, whether the send succeeds, the
  send throws, or the message cannot be built. When the send of the message throws an
  error \<open>err\<close>, all that happens between entering and leaving the function is the call
  of the client and one log entry, \<open>Error sending Gmail alert: \<close> and the error's
  message.
\<close>

theorem sendGmailAlert_never_throws:
  "fst (sendGmailAlert E pd s) = Inr () \<and>
   (\<forall>raw err. encodedMessage E pd = Inr raw \<longrightarrow> gmail_send E raw = Some err \<longrightarrow>
      delivery_effects s (snd (sendGmailAlert E pd s))
        = [Enter ''sendGmailAlert'', GmailSend raw,
           console_line E (ticks s) (''Error sending Gmail alert: '' @ error_message err),
           Leave ''sendGmailAlert''] \<and>
      logs (snd (sendGmailAlert E pd s))
        = newest 50 (logs s @ [entry_at E (ticks s)
                                 (''Error sending Gmail alert: '' @ error_message err)]) \<and>
      ticks (snd (sendGmailAlert E pd s)) = Suc (ticks s))"
  by (simp add: fst_sendGmailAlert delivery_effects_def trace_sendGmailAlert
      logs_sendGmailAlert ticks_sendGmailAlert mail_effects_def mail_log_def)

text \<open>The record of the failed charge while the e-mail provider refuses the send.\<close>

theorem sendGmailAlert_never_throws_witness:
  "encodedMessage mail_down_env charge_record = Inr charge_alert \<and>
   gmail_send mail_down_env charge_alert = Some (Failure ''invalid_grant'') \<and>
   fst (sendGmailAlert mail_down_env charge_record initial_world) = Inr () \<and>
   delivery_effects initial_world (snd (sendGmailAlert mail_down_env charge_record initial_world))
     = [Enter ''sendGmailAlert'', GmailSend charge_alert,
        Console ''[2023-11-14T22:13:21.000Z] Error sending Gmail alert: invalid_grant'',
        Leave ''sendGmailAlert''] \<and>
   logs (snd (sendGmailAlert mail_down_env charge_record initial_world))
     = [\<lparr>timestamp = ''2023-11-14T22:13:21.000Z'',
         message = ''Error sending Gmail alert: invalid_grant''\<rparr>]"
proof -
  note h = mail_down_built(1) mail_down_send(1) [of charge_alert]
  from sendGmailAlert_never_throws [of mail_down_env charge_record initial_world] h
  have "fst (sendGmailAlert mail_down_env charge_record initial_world) = Inr () \<and>
        delivery_effects initial_world
          (snd (sendGmailAlert mail_down_env charge_record initial_world))
          = [Enter ''sendGmailAlert'', GmailSend charge_alert,
             console_line mail_down_env (ticks initial_world)
               (''Error sending Gmail alert: '' @ error_message (Failure ''invalid_grant'')),
             Leave ''sendGmailAlert''] \<and>
        logs (snd (sendGmailAlert mail_down_env charge_record initial_world))
          = newest 50 (logs initial_world
              @ [entry_at mail_down_env (ticks initial_world)
                   (''Error sending Gmail alert: ''
                    @ error_message (Failure ''invalid_grant''))])"
    by blast
  then have "fst (sendGmailAlert mail_down_env charge_record initial_world) = Inr () \<and>
   delivery_effects initial_world (snd (sendGmailAlert mail_down_env charge_record initial_world))
     = [Enter ''sendGmailAlert'', GmailSend charge_alert,
        Console ''[2023-11-14T22:13:21.000Z] Error sending Gmail alert: invalid_grant'',
        Leave ''sendGmailAlert''] \<and>
   logs (snd (sendGmailAlert mail_down_env charge_record initial_world))
     = [\<lparr>timestamp = ''2023-11-14T22:13:21.000Z'',
         message = ''Error sending Gmail alert: invalid_grant''\<rparr>]"
    by (simp add: initial_world_fields console_line_def entry_at_def newest_def mail_down_built)
  with h show ?thesis by blast
qed

text \<open>
  C10. When \<^verbatim>\<open>addToAirtable\<close> builds its row \<open>r\<close> for a record (it does for every record
  with a string currency and a printable amount; for any other nothing is stored), it
  calls the table's create once, with that row. The row has nine fields, of which
  \<open>Customer Email\<close>, \<open>Failure Code\<close> and \<open>Failure Message\<close> are the record's fields when
  these are present and \<open>Unknown\<close> when they are absent or empty (falsy). So when the
  record's \<open>payment_id\<close> and \<open>failed_at\<close> are defined and its amount is a number, every
  field of the stored row is populated, whatever the three optional fields of the record
  are.
\<close>

theorem stored_row_defaults_to_Unknown:
  assumes "airtable_fields E pd (clock E (ticks s)) = Inr r"
    and "addToAirtable E pd s = (res, s')"
  shows "channel_effects s s' = [AirtableCreate r] \<and>
         map fst r = [''Payment ID'', ''Customer Email'', ''Amount'', ''Currency'',
                      ''Failure Code'', ''Failure Message'', ''Failed At'', ''Status'',
                      ''Created At''] \<and>
         map_of r ''Customer Email''
           = Some (Val (if truthy (customer_email pd) then customer_email pd
                        else JStr ''Unknown'')) \<and>
         map_of r ''Failure Code''
           = Some (Val (if truthy (failure_code pd) then failure_code pd
                        else JStr ''Unknown'')) \<and>
         map_of r ''Failure Message''
           = Some (Val (if truthy (failure_message pd) then failure_message pd
                        else JStr ''Unknown'')) \<and>
         (payment_id pd \<noteq> JUndefined \<and> (\<exists>n. amount pd = JNum n)
            \<and> failed_at pd \<noteq> JUndefined \<longrightarrow>
          list_all (\<lambda>kc. populated (snd kc)) r)"
proof -
  have s': "s' = snd (addToAirtable E pd s)"
    using assms(2) by simp
  have effects: "channel_effects s s' = [AirtableCreate r]"
    by (simp add: s' channel_effects_def delivery_effects_def trace_addToAirtable
        store_effects_def assms(1) console_line_kind)
  have d: "v \<noteq> JUndefined" if "truthy v" for v
    using that by (cases v) simp_all
  from assms(1) obtain cur where
    r: "r = [(''Payment ID'', Val (payment_id pd)),
            (''Customer Email'', Val (js_or (customer_email pd) (JStr ''Unknown''))),
            (''Amount'', Hundredth (amount pd)),
            (''Currency'', Val (JStr cur)),
            (''Failure Code'', Val (js_or (failure_code pd) (JStr ''Unknown''))),
            (''Failure Message'', Val (js_or (failure_message pd) (JStr ''Unknown''))),
            (''Failed At'', Val (failed_at pd)),
            (''Status'', Val (JStr ''New'')),
            (''Created At'', Val (JStr (clock E (ticks s))))]"
    by (auto simp: airtable_fields_def bindE_Inr split: if_splits)
  show ?thesis
    using effects d [of "customer_email pd"] d [of "failure_code pd"] d [of "failure_message pd"]
    by (auto simp: r js_or_def)
qed

text \<open>The record of the payment intent without a last-error object: its failure code and
  message are \<^verbatim>\<open>undefined\<close>, the row's are \<open>Unknown\<close>, and the row is fully populated.\<close>

theorem stored_row_defaults_to_Unknown_witness:
  "airtable_fields healthy_env intent_record (clock healthy_env (ticks initial_world))
     = Inr (intent_row ''2023-11-14T22:13:21.000Z'') \<and>
   failure_code intent_record = JUndefined \<and>
   failure_message intent_record = JUndefined \<and>
   channel_effects initial_world (snd (addToAirtable healthy_env intent_record initial_world))
     = [AirtableCreate (intent_row ''2023-11-14T22:13:21.000Z'')] \<and>
   map_of (intent_row ''2023-11-14T22:13:21.000Z'') ''Failure Code''
     = Some (Val (JStr ''Unknown'')) \<and>
   map_of (intent_row ''2023-11-14T22:13:21.000Z'') ''Failure Message''
     = Some (Val (JStr ''Unknown'')) \<and>
   list_all (\<lambda>kc. populated (snd kc)) (intent_row ''2023-11-14T22:13:21.000Z'')"
proof -
  have f: "failure_code intent_record = JUndefined"
    "failure_message intent_record = JUndefined" "payment_id intent_record \<noteq> JUndefined"
    "\<exists>n. amount intent_record = JNum n" "failed_at intent_record \<noteq> JUndefined"
    by (simp_all add: intent_record_def)
  have h: "airtable_fields healthy_env intent_record (clock healthy_env (ticks initial_world))
     = Inr (intent_row ''2023-11-14T22:13:21.000Z'')"
    by (simp add: healthy_env_def airtable_fields_intent clock_example initial_world_fields)
  from stored_row_defaults_to_Unknown [OF h prod.collapse [symmetric]] f h
  show ?thesis
    by simp
qed

end
